theory Spec2Isabelle
  imports Main "HOL-Library.Sublist"
begin

section \<open>Python values and exceptions\<close>

text \<open>
  The module \<^verbatim>\<open>vantage6/common/context.py\<close> is glue between a YAML document, the
  file system and the \<^verbatim>\<open>logging\<close> package. Settings read from the YAML document
  are Python values; the ones the code inspects are modelled here. Dictionary keys
  are strings, and floating-point settings are left out. A bound method is an opaque,
  truthy object.
\<close>

datatype pyval =
    PNone
  | PBool bool
  | PInt int
  | PStr string
  | PList "pyval list"
  | PDict "(string \<times> pyval) list"
  | PMethod string

datatype exn =
    AssertionError string
  | AttributeError string
  | KeyError string
  | TypeError string
  | ValueError string
  | OSError string
  | Exception string

type_synonym path = string

text \<open>\<^verbatim>\<open>bool(v)\<close>\<close>

fun truthy :: "pyval \<Rightarrow> bool" where
  "truthy PNone = False"
| "truthy (PBool b) = b"
| "truthy (PInt i) = (i \<noteq> 0)"
| "truthy (PStr s) = (s \<noteq> [])"
| "truthy (PList xs) = (xs \<noteq> [])"
| "truthy (PDict kvs) = (kvs \<noteq> [])"
| "truthy (PMethod m) = True"

text \<open>\<^verbatim>\<open>v[k]\<close> with a string key: only a dictionary accepts it.\<close>

fun subscript :: "pyval \<Rightarrow> string \<Rightarrow> exn + pyval" where
  "subscript (PDict kvs) k =
     (case map_of kvs k of None \<Rightarrow> Inl (KeyError k) | Some v \<Rightarrow> Inr v)"
| "subscript v k = Inl (TypeError ''subscript'')"

text \<open>\<^verbatim>\<open>v.get(k)\<close> and \<^verbatim>\<open>v.get(k, d)\<close>: only a dictionary has the method.\<close>

fun dict_get_default :: "pyval \<Rightarrow> string \<Rightarrow> pyval \<Rightarrow> exn + pyval" where
  "dict_get_default (PDict kvs) k d =
     (case map_of kvs k of None \<Rightarrow> Inr d | Some v \<Rightarrow> Inr v)"
| "dict_get_default v k d = Inl (AttributeError ''get'')"

definition dict_get :: "pyval \<Rightarrow> string \<Rightarrow> exn + pyval" where
  "dict_get v k = dict_get_default v k PNone"

text \<open>\<^verbatim>\<open>v.upper()\<close>, on the ASCII letters.\<close>

definition upper_char :: "char \<Rightarrow> char" where
  "upper_char c =
     (if 97 \<le> (of_char c :: nat) \<and> (of_char c :: nat) \<le> 122
      then char_of ((of_char c :: nat) - 32) else c)"

fun upper :: "pyval \<Rightarrow> exn + string" where
  "upper (PStr s) = Inr (map upper_char s)"
| "upper v = Inl (AttributeError ''upper'')"

text \<open>\<^verbatim>\<open>str(i)\<close> for an integer, as an f-string prints it.\<close>

fun digits :: "nat \<Rightarrow> string" where
  "digits n =
     (if n < 10 then [char_of (48 + n)]
      else digits (n div 10) @ [char_of (48 + n mod 10)])"

definition str_int :: "int \<Rightarrow> string" where
  "str_int i = (if i < 0 then ''-'' @ digits (nat (- i)) else digits (nat i))"

text \<open>The format specification \<^verbatim>\<open>{s:^78}\<close>: centred in 78 columns.\<close>

definition center78 :: "string \<Rightarrow> string" where
  "center78 s =
     (let pad = 78 - length s; l = pad div 2
      in replicate l (CHR '' '') @ s @ replicate (pad - l) (CHR '' ''))"

section \<open>Exceptions as values\<close>

definition bindE :: "exn + 'a \<Rightarrow> ('a \<Rightarrow> exn + 'b) \<Rightarrow> exn + 'b" where
  "bindE r f = (case r of Inl e \<Rightarrow> Inl e | Inr v \<Rightarrow> f v)"

text \<open>
  Reading an instance attribute: an attribute that was never assigned raises
  \<^verbatim>\<open>AttributeError\<close>.
\<close>

definition attr :: "string \<Rightarrow> 'a option \<Rightarrow> exn + 'a" where
  "attr nm v = (case v of None \<Rightarrow> Inl (AttributeError nm) | Some x \<Rightarrow> Inr x)"

section \<open>Collaborators\<close>

text \<open>
  Modelled from the spec: the class \<^verbatim>\<open>ConfigurationManager\<close> of
  \<^verbatim>\<open>vantage6.common.configuration_manager\<close> is not part of the source under study.
  A manager is what this module observes of it: its \<^verbatim>\<open>name\<close>, its
  \<^verbatim>\<open>available_environments\<close>, the settings \<^verbatim>\<open>get(name)\<close> returns, \<^verbatim>\<open>is_empty\<close>,
  its truth value (\<^verbatim>\<open>assert self.config_manager\<close>) and whatever further attributes
  the object carries (\<^verbatim>\<open>getattr(config_manager, environment)\<close>).
\<close>

record config_manager =
  cm_name :: string
  cm_available_environments :: "string list"
  cm_get :: "string \<Rightarrow> pyval"
  cm_is_empty :: bool
  cm_truthy :: bool
  cm_attrs :: "(string \<times> pyval) list"

text \<open>
  \<^verbatim>\<open>getattr(config_manager, a)\<close>: the attributes this module itself uses on a
  manager exist on every manager; any other name is looked up among the further
  attributes and raises \<^verbatim>\<open>AttributeError\<close> when the object has none of that name.
\<close>

definition cm_getattr :: "config_manager \<Rightarrow> string \<Rightarrow> exn + pyval" where
  "cm_getattr cm a =
     (if a = ''name'' then Inr (PStr (cm_name cm))
      else if a = ''available_environments''
        then Inr (PList (map PStr (cm_available_environments cm)))
      else if a = ''get'' then Inr (PMethod ''get'')
      else if a = ''from_file'' then Inr (PMethod ''from_file'')
      else if a = ''is_empty'' then Inr (PBool (cm_is_empty cm))
      else (case map_of (cm_attrs cm) a of
              None \<Rightarrow> Inl (AttributeError a)
            | Some v \<Rightarrow> Inr v))"

text \<open>The directories \<^verbatim>\<open>appdirs.AppDirs(APPNAME, "")\<close> reports.\<close>

record appdirs =
  site_data_dir :: string
  site_config_dir :: string
  user_log_dir :: string
  user_data_dir :: string
  user_config_dir :: string

datatype formatter = Formatter pyval pyval

text \<open>
  The host: the constant \<^verbatim>\<open>APPNAME\<close> of \<^verbatim>\<open>vantage6.common.globals\<close> and the library
  calls the module makes (\<^verbatim>\<open>appdirs\<close>, \<^verbatim>\<open>pathlib\<close>, \<^verbatim>\<open>os\<close>, \<^verbatim>\<open>logging\<close>), taken as
  parameters. A path is identified with its string form. \<open>makedirs\<close> and
  \<open>open_append\<close> map the set of existing paths to the new one or raise;
  \<open>Formatter_raises\<close> is the validation \<^verbatim>\<open>logging.Formatter\<close> performs.
\<close>

record host =
  APPNAME :: string
  AppDirs :: "string \<Rightarrow> string \<Rightarrow> appdirs"
  Path :: "string \<Rightarrow> path"
  joinpath :: "path \<Rightarrow> string \<Rightarrow> path"
  stem :: "path \<Rightarrow> string"
  parent :: "path \<Rightarrow> path"
  dirname :: "path \<Rightarrow> string"
  glob :: "path set \<Rightarrow> path \<Rightarrow> string \<Rightarrow> path list"
  makedirs :: "path set \<Rightarrow> string \<Rightarrow> exn + path set"
  open_append :: "path set \<Rightarrow> path \<Rightarrow> exn + path set"
  getcwd :: string
  logging_getattr :: "string \<Rightarrow> pyval option"
  Formatter_raises :: "pyval \<Rightarrow> pyval \<Rightarrow> exn option"

text \<open>
  The class attributes of \<^verbatim>\<open>AppContext\<close>: \<open>from_file\<close> is
  \<^verbatim>\<open>INST_CONFIG_MANAGER.from_file\<close>, the outcome of loading the file at a path.
\<close>

record appcontext_class =
  from_file :: "path \<Rightarrow> exn + config_manager"
  LOGGING_ENABLED :: bool

section \<open>The context object and the process state\<close>

datatype pylogger = NoLogger | Logger string

text \<open>
  The instance attributes. \<open>None\<close> is an attribute that holds nothing: it was
  never assigned. (\<^verbatim>\<open>set_folders\<close> assigns \<^verbatim>\<open>dirs.get(key)\<close>; the three keys are
  always present, see \<open>set_folders_assigns\<close> below.) \<open>self_config_file\<close> and
  \<open>self_environment\<close> are the private \<^verbatim>\<open>__config_file\<close> and \<^verbatim>\<open>__environment\<close>.
\<close>

record ctx =
  self_name :: "string option"
  self_scope :: "string option"
  self_log_dir :: "path option"
  self_data_dir :: "path option"
  self_config_dir :: "path option"
  self_config_file :: "path option"
  self_config_manager :: "config_manager option"
  self_environment :: "string option"
  self_config :: "pyval option"
  self_log :: "pylogger option"

text \<open>\<^verbatim>\<open>cls.__new__(cls)\<close>: an object with no instance attribute.\<close>

definition new_object :: ctx where
  "new_object =
     \<lparr>self_name = None, self_scope = None, self_log_dir = None, self_data_dir = None,
      self_config_dir = None, self_config_file = None, self_config_manager = None,
      self_environment = None, self_config = None, self_log = None\<rparr>"

text \<open>
  A handler as it is when \<^verbatim>\<open>addHandler\<close> receives it: file name, \<^verbatim>\<open>maxBytes\<close>,
  \<^verbatim>\<open>backupCount\<close>, level and formatter.
\<close>

datatype handler =
    RotatingFileHandler path int pyval int formatter
  | ColorStreamHandler int formatter

text \<open>
  The state a call can change: the object, the paths that exist, the root logger,
  the warnings redirection and the messages passed to \<^verbatim>\<open>log.info\<close>.
\<close>

record state =
  self :: ctx
  existing :: "path set"
  root_level :: int
  root_handlers :: "handler list"
  capture_warnings :: bool
  info_records :: "string list"

type_synonym 'a prog = "state \<Rightarrow> (exn + 'a) \<times> state"

definition retS :: "'a \<Rightarrow> 'a prog" where
  "retS v s = (Inr v, s)"

definition liftE :: "exn + 'a \<Rightarrow> 'a prog" where
  "liftE r s = (r, s)"

definition reads :: "(ctx \<Rightarrow> exn + 'a) \<Rightarrow> 'a prog" where
  "reads f s = (f (self s), s)"

definition modify :: "(state \<Rightarrow> state) \<Rightarrow> unit prog" where
  "modify f s = (Inr (), f s)"

definition assign :: "(ctx \<Rightarrow> ctx) \<Rightarrow> unit prog" where
  "assign f s = (Inr (), s\<lparr>self := f (self s)\<rparr>)"

text \<open>Sequencing: an exception ends the run and leaves the state as it is then.\<close>

definition bindS :: "'a prog \<Rightarrow> ('a \<Rightarrow> 'b prog) \<Rightarrow> 'b prog" where
  "bindS m f s = (case m s of (Inl e, s') \<Rightarrow> (Inl e, s') | (Inr v, s') \<Rightarrow> f v s')"

section \<open>Path resolution\<close>

text \<open>\<^verbatim>\<open>AppContext.instance_folders\<close>; the returned dictionary as its item list.\<close>

definition instance_folders :: "host \<Rightarrow> string \<Rightarrow> string \<Rightarrow> bool \<Rightarrow> (string \<times> path) list" where
  "instance_folders H instance_type instance_name system_folders =
     (let d = AppDirs H (APPNAME H) []
      in if system_folders then
           [(''log'', joinpath H (Path H (site_data_dir d)) instance_type),
            (''data'', joinpath H (joinpath H (Path H (site_data_dir d)) instance_type) instance_name),
            (''config'', joinpath H (Path H (site_config_dir d)) instance_type)]
         else
           [(''log'', joinpath H (Path H (user_log_dir d)) instance_type),
            (''data'', joinpath H (joinpath H (Path H (user_data_dir d)) instance_type) instance_name),
            (''config'', joinpath H (Path H (user_config_dir d)) instance_type)])"

text \<open>\<^verbatim>\<open>AppContext.set_folders\<close>\<close>

definition set_folders :: "host \<Rightarrow> string \<Rightarrow> string \<Rightarrow> bool \<Rightarrow> unit prog" where
  "set_folders H instance_type instance_name system_folders =
     (let dirs = instance_folders H instance_type instance_name system_folders
      in assign (\<lambda>c. c\<lparr>self_log_dir := map_of dirs ''log'',
                        self_data_dir := map_of dirs ''data'',
                        self_config_dir := map_of dirs ''config''\<rparr>))"

section \<open>Derived names\<close>

text \<open>
  \<^verbatim>\<open>docker_temporary_volume_name\<close>, \<^verbatim>\<open>docker_container_name\<close> and
  \<^verbatim>\<open>docker_network_name\<close>. An f-string reads its fields from left to right; run
  identifiers are integers.
\<close>

definition docker_temporary_volume_name :: "host \<Rightarrow> ctx \<Rightarrow> int \<Rightarrow> exn + string" where
  "docker_temporary_volume_name H c run_id =
     bindE (attr ''name'' (self_name c)) (\<lambda>n.
     bindE (attr ''scope'' (self_scope c)) (\<lambda>sc.
     Inr (APPNAME H @ ''-'' @ n @ ''-'' @ sc @ ''-'' @ str_int run_id @ ''-tmpvol'')))"

definition docker_container_name :: "host \<Rightarrow> ctx \<Rightarrow> exn + string" where
  "docker_container_name H c =
     bindE (attr ''name'' (self_name c)) (\<lambda>n.
     bindE (attr ''scope'' (self_scope c)) (\<lambda>sc.
     Inr (APPNAME H @ ''-'' @ n @ ''-'' @ sc)))"

definition docker_network_name :: "host \<Rightarrow> ctx \<Rightarrow> exn + string" where
  "docker_network_name H c =
     bindE (attr ''name'' (self_name c)) (\<lambda>n.
     bindE (attr ''scope'' (self_scope c)) (\<lambda>sc.
     Inr (APPNAME H @ ''-'' @ n @ ''-'' @ sc)))"

section \<open>The log file\<close>

text \<open>\<^verbatim>\<open>self.log_dir / v\<close>: the right operand must be a string.\<close>

definition truediv :: "host \<Rightarrow> path \<Rightarrow> pyval \<Rightarrow> exn + path" where
  "truediv H d v =
     (case v of PStr f \<Rightarrow> Inr (joinpath H d f) | _ \<Rightarrow> Inl (TypeError ''/''))"

text \<open>
  The property \<^verbatim>\<open>AppContext.log_file\<close>. The default name is the f-string of the
  source, character for character.
\<close>

definition log_file :: "host \<Rightarrow> ctx \<Rightarrow> exn + path" where
  "log_file H c =
     bindE (attr ''config_manager'' (self_config_manager c)) (\<lambda>cm.
     if \<not> cm_truthy cm
     then Inl (AssertionError ''Log file unkown as configuration manager not initialized'')
     else
     bindE (attr ''config'' (self_config c)) (\<lambda>cfg.
     bindE (dict_get cfg ''logging'') (\<lambda>lg.
     bindE (if truthy lg then bindE (dict_get lg ''file'') (\<lambda>f. Inr (truthy f)) else Inr False)
       (\<lambda>override.
     if override then
       bindE (attr ''log_dir'' (self_log_dir c)) (\<lambda>d.
       bindE (dict_get lg ''file'') (\<lambda>f. truediv H d f))
     else
       bindE (attr ''_AppContext__environment'' (self_environment c)) (\<lambda>env.
       bindE (attr ''scope'' (self_scope c)) (\<lambda>sc.
       bindE (attr ''log_dir'' (self_log_dir c)) (\<lambda>d.
       Inr (joinpath H d (cm_name cm @ ''-'' @ env @ ''-'' @ sc @ '' + .log'')))))))))"

section \<open>Logging setup\<close>

text \<open>The level names of the \<^verbatim>\<open>logging\<close> package and its \<^verbatim>\<open>_checkLevel\<close>.\<close>

definition nameToLevel :: "(string \<times> int) list" where
  "nameToLevel =
     [(''CRITICAL'', 50), (''FATAL'', 50), (''ERROR'', 40), (''WARN'', 30),
      (''WARNING'', 30), (''INFO'', 20), (''DEBUG'', 10), (''NOTSET'', 0)]"

fun checkLevel :: "pyval \<Rightarrow> exn + int" where
  "checkLevel (PInt n) = Inr n"
| "checkLevel (PBool b) = Inr (if b then 1 else 0)"
| "checkLevel (PStr s) =
     (case map_of nameToLevel s of None \<Rightarrow> Inl (ValueError s) | Some n \<Rightarrow> Inr n)"
| "checkLevel v = Inl (TypeError ''level'')"

text \<open>\<^verbatim>\<open>1024 * v\<close>\<close>

fun mul_1024 :: "pyval \<Rightarrow> exn + pyval" where
  "mul_1024 (PInt n) = Inr (PInt (1024 * n))"
| "mul_1024 (PBool b) = Inr (PInt (if b then 1024 else 0))"
| "mul_1024 (PStr s) = Inr (PStr (concat (replicate 1024 s)))"
| "mul_1024 (PList xs) = Inr (PList (concat (replicate 1024 xs)))"
| "mul_1024 v = Inl (TypeError ''*'')"

text \<open>\<^verbatim>\<open>logging.Formatter(fmt, datefmt)\<close>\<close>

definition new_Formatter :: "host \<Rightarrow> pyval \<Rightarrow> pyval \<Rightarrow> exn + formatter" where
  "new_Formatter H fmt datefmt =
     (case Formatter_raises H fmt datefmt of
        Some e \<Rightarrow> Inl e
      | None \<Rightarrow> Inr (Formatter fmt datefmt))"

text \<open>\<^verbatim>\<open>os.makedirs(d, exist_ok=True)\<close>\<close>

definition os_makedirs :: "host \<Rightarrow> string \<Rightarrow> unit prog" where
  "os_makedirs H d s =
     (case makedirs H (existing s) d of
        Inl e \<Rightarrow> (Inl e, s)
      | Inr ex \<Rightarrow> (Inr (), s\<lparr>existing := ex\<rparr>))"

text \<open>\<^verbatim>\<open>logging.getLogger().setLevel(level)\<close>\<close>

definition root_setLevel :: "pyval \<Rightarrow> unit prog" where
  "root_setLevel level s =
     (case checkLevel level of
        Inl e \<Rightarrow> (Inl e, s)
      | Inr n \<Rightarrow> (Inr (), s\<lparr>root_level := n\<rparr>))"

text \<open>
  The constructor of \<^verbatim>\<open>RotatingFileHandler\<close>: it compares \<^verbatim>\<open>maxBytes\<close> with 0 and
  opens the file. The result is the triple the handler keeps.
\<close>

definition new_RotatingFileHandler ::
  "host \<Rightarrow> path \<Rightarrow> pyval \<Rightarrow> pyval \<Rightarrow> (path \<times> int \<times> pyval) prog" where
  "new_RotatingFileHandler H filename maxBytes backupCount s =
     (case maxBytes of
        PInt n \<Rightarrow>
          (case open_append H (existing s) filename of
             Inl e \<Rightarrow> (Inl e, s)
           | Inr ex \<Rightarrow> (Inr (filename, n, backupCount), s\<lparr>existing := ex\<rparr>))
      | _ \<Rightarrow> (Inl (TypeError ''>''), s))"

text \<open>
  \<^verbatim>\<open>logger.addHandler(h)\<close> on the root logger. Each call receives an object created
  just before, which is therefore not yet among the handlers, and appends it.
\<close>

definition addHandler :: "handler \<Rightarrow> unit prog" where
  "addHandler h = modify (\<lambda>s. s\<lparr>root_handlers := root_handlers s @ [h]\<rparr>)"

text \<open>\<^verbatim>\<open>log.info(msg)\<close>\<close>

definition info :: "string \<Rightarrow> unit prog" where
  "info msg = modify (\<lambda>s. s\<lparr>info_records := info_records s @ [msg]\<rparr>)"

text \<open>The console branch of \<^verbatim>\<open>setup_logging\<close>.\<close>

definition add_console :: "host \<Rightarrow> pyval \<Rightarrow> pyval \<Rightarrow> pyval \<Rightarrow> unit prog" where
  "add_console H level fmt datefmt =
     bindS (liftE (checkLevel level)) (\<lambda>lv.
     bindS (liftE (new_Formatter H fmt datefmt)) (\<lambda>fm.
     addHandler (ColorStreamHandler lv fm)))"

text \<open>
  The banner at the end of \<^verbatim>\<open>setup_logging\<close>, and the assignment of \<^verbatim>\<open>self.log\<close>.
  \<open>CHR 0x27\<close> is the apostrophe.
\<close>

definition banner :: "host \<Rightarrow> unit prog" where
  "banner H =
     bindS (info (replicate 80 (CHR ''#''))) (\<lambda>_.
     bindS (info (''#'' @ center78 (APPNAME H) @ ''#'')) (\<lambda>_.
     bindS (info (replicate 80 (CHR ''#''))) (\<lambda>_.
     bindS (reads (\<lambda>c. attr ''_AppContext__environment'' (self_environment c))) (\<lambda>env.
     bindS (info (''Started application '' @ APPNAME H @ '' with environment '' @ env)) (\<lambda>_.
     bindS (info (''Current working directory is '' @ [CHR 0x27] @ getcwd H @ [CHR 0x27])) (\<lambda>_.
     bindS (reads (\<lambda>c. attr ''_AppContext__config_file'' (self_config_file c))) (\<lambda>cf.
     bindS (info (''Succesfully loaded configuration from '' @ [CHR 0x27] @ cf @ [CHR 0x27])) (\<lambda>_.
     bindS (reads (log_file H)) (\<lambda>lf.
     bindS (info (''Logging to '' @ [CHR 0x27] @ lf @ [CHR 0x27])) (\<lambda>_.
     assign (\<lambda>c. c\<lparr>self_log := Some (Logger ''context'')\<rparr>)))))))))))"

text \<open>\<^verbatim>\<open>AppContext.setup_logging\<close>\<close>

definition setup_logging :: "host \<Rightarrow> unit prog" where
  "setup_logging H =
     bindS (reads (\<lambda>c. bindE (attr ''config'' (self_config c)) (\<lambda>cfg. subscript cfg ''logging'')))
       (\<lambda>log_config.
     bindS (liftE (bindE (subscript log_config ''level'') (\<lambda>l. bindE (upper l) (\<lambda>nm.
              attr nm (logging_getattr H nm))))) (\<lambda>level.
     bindS (liftE (subscript log_config ''format'')) (\<lambda>fmt.
     bindS (liftE (dict_get_default log_config ''datefmt'' (PStr []))) (\<lambda>datefmt.
     bindS (reads (log_file H)) (\<lambda>lf.
     bindS (os_makedirs H (dirname H lf)) (\<lambda>_.
     bindS (root_setLevel level) (\<lambda>_.
     bindS (reads (log_file H)) (\<lambda>filename.
     bindS (liftE (bindE (subscript log_config ''max_size'') mul_1024)) (\<lambda>maxBytes.
     bindS (liftE (subscript log_config ''backup_count'')) (\<lambda>backupCount.
     bindS (new_RotatingFileHandler H filename maxBytes backupCount) (\<lambda>(fn, mb, bc).
     bindS (liftE (checkLevel level)) (\<lambda>lv.
     bindS (liftE (new_Formatter H fmt datefmt)) (\<lambda>fm.
     bindS (addHandler (RotatingFileHandler fn mb bc lv fm)) (\<lambda>_.
     bindS (liftE (subscript log_config ''use_console'')) (\<lambda>use_console.
     bindS (if truthy use_console then add_console H level fmt datefmt else retS ()) (\<lambda>_.
     bindS (modify (\<lambda>s. s\<lparr>capture_warnings := True\<rparr>)) (\<lambda>_.
     banner H)))))))))))))))))"

section \<open>The setters and the constructors\<close>

text \<open>
  The setter of \<^verbatim>\<open>config_file\<close>. An \<^verbatim>\<open>assert\<close> is checked, as the interpreter does
  unless it is asked to optimise.
\<close>

definition config_file_setter :: "appcontext_class \<Rightarrow> host \<Rightarrow> path \<Rightarrow> unit prog" where
  "config_file_setter K H p s =
     (if Path H p \<notin> existing s
      then (Inl (AssertionError (''config '' @ p @ '' not found'')), s)
      else
        bindS (assign (\<lambda>c. c\<lparr>self_config_file := Some (Path H p)\<rparr>)) (\<lambda>_.
        bindS (liftE (from_file K p)) (\<lambda>cm.
        assign (\<lambda>c. c\<lparr>self_config_manager := Some cm\<rparr>))) s)"

text \<open>The setter of \<^verbatim>\<open>environment\<close>.\<close>

definition environment_setter :: "appcontext_class \<Rightarrow> host \<Rightarrow> string \<Rightarrow> unit prog" where
  "environment_setter K H env =
     bindS (reads (\<lambda>c. attr ''config_manager'' (self_config_manager c))) (\<lambda>cm.
     if \<not> cm_truthy cm
     then liftE (Inl (AssertionError
            ''Environment set before ConfigurationManager is initialized...''))
     else if env \<notin> set (cm_available_environments cm)
     then liftE (Inl (AssertionError
            (''Requested environment '' @ env @ '' is not found in the configuration'')))
     else
       bindS (assign (\<lambda>c. c\<lparr>self_environment := Some env\<rparr>)) (\<lambda>_.
       bindS (reads (\<lambda>c. attr ''config_manager'' (self_config_manager c))) (\<lambda>cm'.
       bindS (assign (\<lambda>c. c\<lparr>self_config := Some (cm_get cm' env)\<rparr>)) (\<lambda>_.
       if LOGGING_ENABLED K then setup_logging H else retS ()))))"

text \<open>\<^verbatim>\<open>AppContext.__init__\<close>, run on the object in the state.\<close>

definition init :: "appcontext_class \<Rightarrow> host \<Rightarrow> string \<Rightarrow> string \<Rightarrow> bool \<Rightarrow> string \<Rightarrow> unit prog" where
  "init K H instance_type instance_name system_folders environment =
     bindS (assign (\<lambda>c. c\<lparr>self_name := Some instance_name\<rparr>)) (\<lambda>_.
     bindS (assign (\<lambda>c. c\<lparr>self_scope := Some (if system_folders then ''system'' else ''user'')\<rparr>)) (\<lambda>_.
     bindS (set_folders H instance_type instance_name system_folders) (\<lambda>_.
     bindS (reads (\<lambda>c. attr ''config_dir'' (self_config_dir c))) (\<lambda>config_dir.
     bindS (config_file_setter K H (joinpath H config_dir (instance_name @ ''.yaml''))) (\<lambda>_.
     bindS (environment_setter K H environment) (\<lambda>_.
     assign (\<lambda>c. c\<lparr>self_log := Some NoLogger\<rparr>)))))))"

text \<open>
  \<^verbatim>\<open>AppContext.from_external_config_file\<close>: the object in the state is the one
  \<^verbatim>\<open>cls.__new__(cls)\<close> creates, and it is the result.
\<close>

definition from_external_config_file ::
  "appcontext_class \<Rightarrow> host \<Rightarrow> path \<Rightarrow> string \<Rightarrow> string \<Rightarrow> bool \<Rightarrow> ctx prog" where
  "from_external_config_file K H p instance_type environment system_folders =
     (let instance_name = stem H (Path H p)
      in bindS (assign (\<lambda>c. new_object)) (\<lambda>_.
         bindS (set_folders H instance_type instance_name system_folders) (\<lambda>_.
         bindS (assign (\<lambda>c. c\<lparr>self_config_dir := Some (parent H (Path H p))\<rparr>)) (\<lambda>_.
         bindS (config_file_setter K H p) (\<lambda>_.
         bindS (environment_setter K H environment) (\<lambda>_.
         reads (\<lambda>c. Inr c)))))))"

section \<open>Configuration discovery\<close>

text \<open>\<^verbatim>\<open>AppContext.config_exists\<close>, given the paths that exist.\<close>

definition config_exists ::
  "appcontext_class \<Rightarrow> host \<Rightarrow> path set \<Rightarrow> string \<Rightarrow> string \<Rightarrow> string \<Rightarrow> bool \<Rightarrow> exn + bool" where
  "config_exists K H ex instance_type instance_name environment system_folders =
     (let d = AppDirs H (APPNAME H) [];
          config_dir = (if system_folders then site_config_dir d else user_config_dir d);
          config_file = joinpath H (joinpath H (Path H config_dir) instance_type)
                          (instance_name @ ''.yaml'')
      in if Path H config_file \<notin> ex then Inr False
         else
           bindE (from_file K config_file) (\<lambda>config_manager.
           bindE (cm_getattr config_manager environment) (\<lambda>v.
           Inr (truthy v))))"

text \<open>
  The loop of \<^verbatim>\<open>AppContext.available_configurations\<close>: the body is a
  \<^verbatim>\<open>try\<close> whose \<^verbatim>\<open>except Exception\<close> branch appends the file to \<^verbatim>\<open>failed\<close>.
\<close>

fun load_each ::
  "appcontext_class \<Rightarrow> path list \<Rightarrow> config_manager list \<Rightarrow> path list \<Rightarrow>
   config_manager list \<times> path list" where
  "load_each K [] configs failed = (configs, failed)"
| "load_each K (file # files) configs failed =
     (case from_file K file of
        Inl e \<Rightarrow> load_each K files configs (failed @ [file])
      | Inr conf_manager \<Rightarrow>
          if cm_is_empty conf_manager
          then load_each K files configs (failed @ [file])
          else load_each K files (configs @ [conf_manager]) failed)"

text \<open>\<^verbatim>\<open>AppContext.available_configurations\<close>, given the paths that exist.\<close>

definition available_configurations ::
  "appcontext_class \<Rightarrow> host \<Rightarrow> path set \<Rightarrow> string \<Rightarrow> bool \<Rightarrow>
   exn + (config_manager list \<times> path list)" where
  "available_configurations K H ex instance_type system_folders =
     (let folders = instance_folders H instance_type [] system_folders
      in case map_of folders ''config'' of
           None \<Rightarrow> Inl (KeyError ''config'')
         | Some dir \<Rightarrow> Inr (load_each K (glob H ex (Path H dir) ''*.yaml'') [] []))"

section \<open>Example inputs\<close>

text \<open>
  A host on which the model can be run: paths are joined with a slash, the
  directory of a path is what precedes its last slash, the stem of a path is its
  last component up to the first dot. The application is called \<open>vantage6\<close>.
\<close>

definition ex_parent :: "path \<Rightarrow> path" where
  "ex_parent p = rev (drop 1 (dropWhile (\<lambda>c. c \<noteq> CHR ''/'') (rev p)))"

definition ex_stem :: "path \<Rightarrow> string" where
  "ex_stem p = takeWhile (\<lambda>c. c \<noteq> CHR ''.'') (rev (takeWhile (\<lambda>c. c \<noteq> CHR ''/'') (rev p)))"

definition ex_host :: host where
  "ex_host =
     \<lparr>APPNAME = ''vantage6'',
      AppDirs = (\<lambda>appname appauthor.
        \<lparr>site_data_dir = ''/usr/share/'' @ appname,
         site_config_dir = ''/etc/xdg/'' @ appname,
         user_log_dir = ''/home/u/.cache/'' @ appname @ ''/log'',
         user_data_dir = ''/home/u/.local/share/'' @ appname,
         user_config_dir = ''/home/u/.config/'' @ appname\<rparr>),
      Path = (\<lambda>p. p),
      joinpath = (\<lambda>p q. p @ ''/'' @ q),
      stem = ex_stem,
      parent = ex_parent,
      dirname = ex_parent,
      glob = (\<lambda>ex d pat.
        if d = ''/home/u/.config/vantage6/node'' \<and> pat = ''*.yaml''
        then filter (\<lambda>p. p \<in> ex)
               [''/home/u/.config/vantage6/node/alpha.yaml'',
                ''/home/u/.config/vantage6/node/broken.yaml'',
                ''/home/u/.config/vantage6/node/empty.yaml'']
        else []),
      makedirs = (\<lambda>ex d. Inr (insert d ex)),
      open_append = (\<lambda>ex p. Inr (insert p ex)),
      getcwd = ''/home/u'',
      logging_getattr = map_of (map (\<lambda>(k, n). (k, PInt n)) nameToLevel),
      Formatter_raises = (\<lambda>fmt datefmt. None)\<rparr>"

text \<open>Two environments, \<open>dev\<close> without a log-file override and \<open>prod\<close> with one.\<close>

definition ex_dev :: pyval where
  "ex_dev =
     PDict [(''logging'', PDict [(''level'', PStr ''debug''), (''format'', PStr ''%(message)s''),
              (''max_size'', PInt 1024), (''backup_count'', PInt 5),
              (''use_console'', PBool False)])]"

definition ex_prod :: pyval where
  "ex_prod =
     PDict [(''logging'', PDict [(''level'', PStr ''info''), (''format'', PStr ''%(message)s''),
              (''max_size'', PInt 2048), (''backup_count'', PInt 3),
              (''use_console'', PBool True), (''file'', PStr ''prod.log'')])]"

definition ex_manager :: config_manager where
  "ex_manager =
     \<lparr>cm_name = ''alpha'',
      cm_available_environments = [''dev'', ''prod''],
      cm_get = (\<lambda>e. if e = ''dev'' then ex_dev else if e = ''prod'' then ex_prod else PStr []),
      cm_is_empty = False,
      cm_truthy = True,
      cm_attrs = [(''dev'', ex_dev), (''prod'', ex_prod), (''test'', PStr [])]\<rparr>"

definition ex_empty_manager :: config_manager where
  "ex_empty_manager =
     \<lparr>cm_name = ''empty'',
      cm_available_environments = [],
      cm_get = (\<lambda>e. PStr []),
      cm_is_empty = True,
      cm_truthy = True,
      cm_attrs = []\<rparr>"

text \<open>
  A class whose loader reads \<open>alpha.yaml\<close> and the empty \<open>empty.yaml\<close> and fails
  on every other file.
\<close>

definition ex_class :: "bool \<Rightarrow> appcontext_class" where
  "ex_class logging_enabled =
     \<lparr>from_file = (\<lambda>p.
        if p = ''/home/u/.config/vantage6/node/alpha.yaml'' then Inr ex_manager
        else if p = ''/home/u/.config/vantage6/node/empty.yaml'' then Inr ex_empty_manager
        else Inl (Exception ''cannot load'')),
      LOGGING_ENABLED = logging_enabled\<rparr>"

definition ex_files :: "path set" where
  "ex_files =
     {''/home/u/.config/vantage6/node/alpha.yaml'',
      ''/home/u/.config/vantage6/node/broken.yaml'',
      ''/home/u/.config/vantage6/node/empty.yaml''}"

text \<open>A process that has not configured logging yet, holding a new object.\<close>

definition ex_state :: state where
  "ex_state =
     \<lparr>self = new_object, existing = ex_files, root_level = 30, root_handlers = [],
      capture_warnings = False, info_records = []\<rparr>"

section \<open>Predicates for stating the properties\<close>

text \<open>A call keeps an observation \<open>g\<close> of the state, whatever its outcome.\<close>

definition keeps :: "(state \<Rightarrow> 'x) \<Rightarrow> 'a prog \<Rightarrow> bool" where
  "keeps g m = (\<forall>s. g (snd (m s)) = g s)"

text \<open>A call only appends to the handlers of the root logger, at most \<open>n\<close> of them.\<close>

definition grows :: "nat \<Rightarrow> 'a prog \<Rightarrow> bool" where
  "grows n m =
     (\<forall>s. prefix (root_handlers s) (root_handlers (snd (m s))) \<and>
          length (root_handlers (snd (m s))) \<le> length (root_handlers s) + n)"

text \<open>
  A call only appends to the handlers, at most \<open>n\<close> of them, and appends at least one
  when it returns.
\<close>

definition adds :: "nat \<Rightarrow> 'a prog \<Rightarrow> bool" where
  "adds n m =
     (\<forall>s. prefix (root_handlers s) (root_handlers (snd (m s))) \<and>
          length (root_handlers (snd (m s))) \<le> length (root_handlers s) + n \<and>
          (isl (fst (m s)) \<or> length (root_handlers s) < length (root_handlers (snd (m s)))))"

text \<open>A call that returns an object returns the one in the state.\<close>

definition returns_self :: "ctx prog \<Rightarrow> bool" where
  "returns_self m = (\<forall>s. isl (fst (m s)) \<or> fst (m s) = Inr (self (snd (m s))))"

text \<open>
  The settings of an environment have a \<^verbatim>\<open>logging\<close> section, a dictionary, whose
  \<^verbatim>\<open>file\<close> entry is missing or falsy: the section supplies no file name.
\<close>

definition logging_without_file :: "pyval \<Rightarrow> bool" where
  "logging_without_file cfg =
     (case cfg of
        PDict kvs \<Rightarrow>
          (case map_of kvs ''logging'' of
             Some (PDict l) \<Rightarrow>
               (case map_of l ''file'' of None \<Rightarrow> True | Some f \<Rightarrow> \<not> truthy f)
           | _ \<Rightarrow> False)
      | _ \<Rightarrow> False)"

text \<open>The settings have a \<^verbatim>\<open>logging\<close> section whose \<^verbatim>\<open>file\<close> entry is the name \<open>f\<close>.\<close>

definition logging_with_file :: "pyval \<Rightarrow> string \<Rightarrow> bool" where
  "logging_with_file cfg f =
     (case cfg of
        PDict kvs \<Rightarrow>
          (case map_of kvs ''logging'' of
             Some (PDict l) \<Rightarrow> map_of l ''file'' = Some (PStr f) \<and> f \<noteq> []
           | _ \<Rightarrow> False)
      | _ \<Rightarrow> False)"

text \<open>A candidate file is accepted: it loads, and the manager is not empty.\<close>

definition accepted :: "appcontext_class \<Rightarrow> path \<Rightarrow> bool" where
  "accepted K file =
     (case from_file K file of Inl e \<Rightarrow> False | Inr conf_manager \<Rightarrow> \<not> cm_is_empty conf_manager)"

text \<open>
  The state when \<^verbatim>\<open>__init__\<close> reaches the assignment of \<^verbatim>\<open>config_file\<close>: name,
  scope and the three folders are stored.
\<close>

definition init_folders :: "host \<Rightarrow> string \<Rightarrow> string \<Rightarrow> bool \<Rightarrow> state \<Rightarrow> state" where
  "init_folders H t n sf s =
     s\<lparr>self := (self s)
        \<lparr>self_name := Some n,
         self_scope := Some (if sf then ''system'' else ''user''),
         self_log_dir := Some (joinpath H (Path H ((if sf then site_data_dir else user_log_dir)
            (AppDirs H (APPNAME H) []))) t),
         self_data_dir := Some (joinpath H (joinpath H (Path H
            ((if sf then site_data_dir else user_data_dir) (AppDirs H (APPNAME H) []))) t) n),
         self_config_dir := Some (joinpath H (Path H
            ((if sf then site_config_dir else user_config_dir) (AppDirs H (APPNAME H) []))) t)\<rparr>\<rparr>"

text \<open>
  A caller that assigns the environments of a list to \<^verbatim>\<open>environment\<close>, one after the
  other, and stops at the first assignment that raises.
\<close>

fun activate_all :: "appcontext_class \<Rightarrow> host \<Rightarrow> string list \<Rightarrow> unit prog" where
  "activate_all K H [] = retS ()"
| "activate_all K H (env # envs) = bindS (environment_setter K H env) (\<lambda>_. activate_all K H envs)"

text \<open>
  A process whose context has the manager of \<open>alpha.yaml\<close> loaded and the environment
  \<open>dev\<close> active; no handler is attached to the root logger.
\<close>

definition ex_active :: state where
  "ex_active =
     \<lparr>self =
        \<lparr>self_name = Some ''alpha'', self_scope = Some ''user'',
         self_log_dir = Some ''/home/u/.cache/vantage6/log/node'',
         self_data_dir = Some ''/home/u/.local/share/vantage6/node/alpha'',
         self_config_dir = Some ''/home/u/.config/vantage6/node'',
         self_config_file = Some ''/home/u/.config/vantage6/node/alpha.yaml'',
         self_config_manager = Some ex_manager,
         self_environment = Some ''dev'', self_config = Some ex_dev, self_log = Some NoLogger\<rparr>,
      existing = ex_files, root_level = 30, root_handlers = [],
      capture_warnings = False, info_records = []\<rparr>"

text \<open>
  The state when \<^verbatim>\<open>from_external_config_file\<close> reaches the assignment of
  \<^verbatim>\<open>config_file\<close>: a new object with the three folders stored, the config folder being
  the parent of the given path.
\<close>

definition external_folders :: "host \<Rightarrow> path \<Rightarrow> string \<Rightarrow> bool \<Rightarrow> state \<Rightarrow> state" where
  "external_folders H p t sf s =
     s\<lparr>self := new_object
        \<lparr>self_log_dir := Some (joinpath H (Path H ((if sf then site_data_dir else user_log_dir)
            (AppDirs H (APPNAME H) []))) t),
         self_data_dir := Some (joinpath H (joinpath H (Path H
            ((if sf then site_data_dir else user_data_dir) (AppDirs H (APPNAME H) []))) t)
            (stem H (Path H p))),
         self_config_dir := Some (parent H (Path H p))\<rparr>\<rparr>"

text \<open>
  The settings let \<^verbatim>\<open>setup_logging\<close> reach the log file: they have a \<^verbatim>\<open>logging\<close>
  section with a \<^verbatim>\<open>level\<close> whose upper-case name is an attribute of the \<^verbatim>\<open>logging\<close>
  package, and a \<^verbatim>\<open>format\<close>.
\<close>

definition reaches_log_file :: "host \<Rightarrow> pyval \<Rightarrow> bool" where
  "reaches_log_file H cfg =
     (case bindE (subscript cfg ''logging'') (\<lambda>log_config.
           bindE (bindE (subscript log_config ''level'') (\<lambda>l. bindE (upper l) (\<lambda>nm.
                    attr nm (logging_getattr H nm)))) (\<lambda>level.
           bindE (subscript log_config ''format'') (\<lambda>fmt.
           dict_get_default log_config ''datefmt'' (PStr [])))) of
        Inl e \<Rightarrow> False
      | Inr v \<Rightarrow> True)"

text \<open>
  A manager whose only environment, \<open>test\<close>, has settings without a \<^verbatim>\<open>logging\<close>
  section, and the example process with that manager loaded.
\<close>

definition ex_bare_manager :: config_manager where
  "ex_bare_manager =
     \<lparr>cm_name = ''beta'',
      cm_available_environments = [''test''],
      cm_get = (\<lambda>e. if e = ''test'' then PDict [(''api_path'', PStr ''/api'')] else PStr []),
      cm_is_empty = False,
      cm_truthy = True,
      cm_attrs = [(''test'', PDict [(''api_path'', PStr ''/api'')])]\<rparr>"

definition ex_bare :: state where
  "ex_bare = ex_active\<lparr>self := (self ex_active)\<lparr>self_config_manager := Some ex_bare_manager\<rparr>\<rparr>"


section \<open>Sequencing\<close>

lemma bindS_retS: "bindS (retS v) f s = f v s"
  by (simp add: bindS_def retS_def)

lemma bindS_liftE: "bindS (liftE r) f s = (case r of Inl e \<Rightarrow> (Inl e, s) | Inr v \<Rightarrow> f v s)"
  by (simp add: bindS_def liftE_def split: sum.splits)

lemma bindS_reads:
  "bindS (reads g) f s = (case g (self s) of Inl e \<Rightarrow> (Inl e, s) | Inr v \<Rightarrow> f v s)"
  by (simp add: bindS_def reads_def split: sum.splits)

lemma bindS_assign: "bindS (assign g) f s = f () (s\<lparr>self := g (self s)\<rparr>)"
  by (simp add: bindS_def assign_def)

lemma bindS_modify: "bindS (modify g) f s = f () (g s)"
  by (simp add: bindS_def modify_def)

lemmas bindS_simps = bindS_retS bindS_liftE bindS_reads bindS_assign bindS_modify

subsection \<open>Observations a call keeps\<close>

lemma keeps_bindS: "keeps g m \<Longrightarrow> (\<And>v. keeps g (f v)) \<Longrightarrow> keeps g (bindS m f)"
  unfolding keeps_def bindS_def
  by (auto split: prod.splits sum.splits) (metis snd_conv)+

lemma keeps_retS: "keeps g (retS v)"
  by (simp add: keeps_def retS_def)

lemma keeps_liftE: "keeps g (liftE r)"
  by (simp add: keeps_def liftE_def)

lemma keeps_reads: "keeps g (reads f)"
  by (simp add: keeps_def reads_def)

lemma keeps_if: "keeps g a \<Longrightarrow> keeps g b \<Longrightarrow> keeps g (if c then a else b)"
  by simp

lemma keeps_case_prod: "(\<And>a b c. keeps g (f a b c)) \<Longrightarrow> keeps g (case x of (a, b, c) \<Rightarrow> f a b c)"
  by (cases x) simp

lemma keeps_modify: "(\<And>s. g (h s) = g s) \<Longrightarrow> keeps g (modify h)"
  by (simp add: keeps_def modify_def)

lemma keeps_assign: "(\<And>s. g (s\<lparr>self := h (self s)\<rparr>) = g s) \<Longrightarrow> keeps g (assign h)"
  by (simp add: keeps_def assign_def)

lemma keeps_os_makedirs: "(\<And>s ex. g (s\<lparr>existing := ex\<rparr>) = g s) \<Longrightarrow> keeps g (os_makedirs H d)"
  by (simp add: keeps_def os_makedirs_def split: sum.splits)

lemma keeps_root_setLevel: "(\<And>s n. g (s\<lparr>root_level := n\<rparr>) = g s) \<Longrightarrow> keeps g (root_setLevel l)"
  by (simp add: keeps_def root_setLevel_def split: sum.splits)

lemma keeps_new_RotatingFileHandler:
  "(\<And>s ex. g (s\<lparr>existing := ex\<rparr>) = g s) \<Longrightarrow> keeps g (new_RotatingFileHandler H f m b)"
  by (simp add: keeps_def new_RotatingFileHandler_def split: sum.splits pyval.splits)

lemma keeps_banner:
  assumes "\<And>s l. g (s\<lparr>self := (self s)\<lparr>self_log := l\<rparr>\<rparr>) = g s"
    and "\<And>s r. g (s\<lparr>info_records := r\<rparr>) = g s"
  shows "keeps g (banner H)"
  unfolding banner_def info_def
  by (intro keeps_bindS keeps_modify keeps_reads keeps_assign) (simp_all add: assms)

lemma keeps_add_console:
  assumes "\<And>s h. g (s\<lparr>root_handlers := h\<rparr>) = g s"
  shows "keeps g (add_console H l f d)"
  unfolding add_console_def addHandler_def
  by (intro keeps_bindS keeps_modify keeps_liftE) (simp_all add: assms)

lemma keeps_setup_logging:
  assumes "\<And>s l. g (s\<lparr>self := (self s)\<lparr>self_log := l\<rparr>\<rparr>) = g s"
    and "\<And>s r. g (s\<lparr>info_records := r\<rparr>) = g s"
    and "\<And>s h. g (s\<lparr>root_handlers := h\<rparr>) = g s"
    and "\<And>s ex. g (s\<lparr>existing := ex\<rparr>) = g s"
    and "\<And>s n. g (s\<lparr>root_level := n\<rparr>) = g s"
    and "\<And>s b. g (s\<lparr>capture_warnings := b\<rparr>) = g s"
  shows "keeps g (setup_logging H)"
  unfolding setup_logging_def addHandler_def
  by (intro keeps_bindS keeps_modify keeps_reads keeps_liftE keeps_if keeps_retS
        keeps_case_prod keeps_banner keeps_add_console keeps_os_makedirs keeps_root_setLevel
        keeps_new_RotatingFileHandler)
     (simp_all add: assms)


lemma keeps_set_folders:
  assumes "\<And>s a b c. g (s\<lparr>self := (self s)\<lparr>self_log_dir := a, self_data_dir := b, self_config_dir := c\<rparr>\<rparr>) = g s"
  shows "keeps g (set_folders H t n sf)"
  unfolding set_folders_def Let_def by (intro keeps_assign) (simp add: assms)

lemma set_folders_assigns:
  "self_log_dir (self (snd (set_folders H t n sf s))) \<noteq> None \<and>
   self_data_dir (self (snd (set_folders H t n sf s))) \<noteq> None \<and>
   self_config_dir (self (snd (set_folders H t n sf s))) \<noteq> None"
  by (simp add: set_folders_def instance_folders_def Let_def assign_def)

lemma keeps_config_file_setter:
  assumes "\<And>s a. g (s\<lparr>self := (self s)\<lparr>self_config_file := a\<rparr>\<rparr>) = g s"
    and "\<And>s a. g (s\<lparr>self := (self s)\<lparr>self_config_manager := a\<rparr>\<rparr>) = g s"
  shows "keeps g (config_file_setter K H p)"
proof -
  have k: "keeps g (bindS (assign (\<lambda>c. c\<lparr>self_config_file := Some (Path H p)\<rparr>)) (\<lambda>_.
        bindS (liftE (from_file K p)) (\<lambda>cm.
        assign (\<lambda>c. c\<lparr>self_config_manager := Some cm\<rparr>))))"
    by (intro keeps_bindS keeps_assign keeps_liftE) (simp_all add: assms)
  show ?thesis
    unfolding keeps_def
  proof
    fix s
    show "g (snd (config_file_setter K H p s)) = g s"
      using k by (simp add: config_file_setter_def keeps_def)
  qed
qed

lemma keeps_environment_setter:
  assumes "\<And>s a. g (s\<lparr>self := (self s)\<lparr>self_environment := a\<rparr>\<rparr>) = g s"
    and "\<And>s a. g (s\<lparr>self := (self s)\<lparr>self_config := a\<rparr>\<rparr>) = g s"
    and "\<And>s l. g (s\<lparr>self := (self s)\<lparr>self_log := l\<rparr>\<rparr>) = g s"
    and "\<And>s r. g (s\<lparr>info_records := r\<rparr>) = g s"
    and "\<And>s h. g (s\<lparr>root_handlers := h\<rparr>) = g s"
    and "\<And>s ex. g (s\<lparr>existing := ex\<rparr>) = g s"
    and "\<And>s n. g (s\<lparr>root_level := n\<rparr>) = g s"
    and "\<And>s b. g (s\<lparr>capture_warnings := b\<rparr>) = g s"
  shows "keeps g (environment_setter K H env)"
  unfolding environment_setter_def
  by (intro keeps_bindS keeps_reads keeps_if keeps_liftE keeps_assign keeps_retS
        keeps_setup_logging)
     (simp_all add: assms)

section \<open>The constructor and the derived names\<close>

lemma init_keeps_name_scope:
  "self_name (self (snd (init K H t n sf env s))) = Some n \<and>
   self_scope (self (snd (init K H t n sf env s))) = Some (if sf then ''system'' else ''user'')"
proof -
  let ?g = "\<lambda>s. (self_name (self s), self_scope (self s))"
  let ?rest = "bindS (set_folders H t n sf) (\<lambda>_.
     bindS (reads (\<lambda>c. attr ''config_dir'' (self_config_dir c))) (\<lambda>config_dir.
     bindS (config_file_setter K H (joinpath H config_dir (n @ ''.yaml''))) (\<lambda>_.
     bindS (environment_setter K H env) (\<lambda>_.
     assign (\<lambda>c. c\<lparr>self_log := Some NoLogger\<rparr>)))))"
  have k: "keeps ?g ?rest"
    by (intro keeps_bindS keeps_reads keeps_assign keeps_set_folders keeps_config_file_setter
          keeps_environment_setter) simp_all
  have "init K H t n sf env s =
        ?rest (s\<lparr>self := (self s)\<lparr>self_name := Some n,
                 self_scope := Some (if sf then ''system'' else ''user'')\<rparr>\<rparr>)"
    by (simp add: init_def bindS_assign)
  with k show ?thesis
    by (simp add: keeps_def)
qed

lemma docker_names_of:
  assumes "self_name c = Some n" "self_scope c = Some sc"
  shows "docker_container_name H c = Inr (APPNAME H @ ''-'' @ n @ ''-'' @ sc)"
    and "docker_network_name H c = Inr (APPNAME H @ ''-'' @ n @ ''-'' @ sc)"
    and "docker_temporary_volume_name H c i =
           Inr (APPNAME H @ ''-'' @ n @ ''-'' @ sc @ ''-'' @ str_int i @ ''-tmpvol'')"
  using assms
  by (simp_all add: docker_container_name_def docker_network_name_def
        docker_temporary_volume_name_def bindE_def attr_def)

lemma str_int_42: "str_int 42 = ''42''"
  by code_simp

text \<open>
  On a context that \<^verbatim>\<open>__init__\<close> has constructed, the container name and
  the network name are equal, both are \<^verbatim>\<open>APPNAME-name-scope\<close> with the instance name
  and the scope the constructor stored, and the temporary volume name of a run is that
  string followed by \<^verbatim>\<open>-run_id-tmpvol\<close>; for run 42 it ends in \<^verbatim>\<open>-42-tmpvol\<close>.
\<close>

theorem docker_names_of_constructed:
  assumes "init K H instance_type instance_name system_folders environment s = (Inr (), s')"
  shows "docker_container_name H (self s') = docker_network_name H (self s') \<and>
         docker_container_name H (self s') =
           Inr (APPNAME H @ ''-'' @ instance_name @ ''-'' @ (if system_folders then ''system'' else ''user'')) \<and>
         self_name (self s') = Some instance_name \<and>
         self_scope (self s') = Some (if system_folders then ''system'' else ''user'') \<and>
         docker_temporary_volume_name H (self s') run_id =
           Inr (APPNAME H @ ''-'' @ instance_name @ ''-'' @ (if system_folders then ''system'' else ''user'')
                @ ''-'' @ str_int run_id @ ''-tmpvol'') \<and>
         docker_temporary_volume_name H (self s') 42 =
           Inr (APPNAME H @ ''-'' @ instance_name @ ''-'' @ (if system_folders then ''system'' else ''user'')
                @ ''-42-tmpvol'')"
proof -
  have ns: "self_name (self s') = Some instance_name"
    "self_scope (self s') = Some (if system_folders then ''system'' else ''user'')"
    using init_keeps_name_scope [of K H instance_type instance_name system_folders environment s] assms
    by simp_all
  show ?thesis
    using docker_names_of [OF ns] ns by (simp add: str_int_42)
qed

lemma ex_init_dev:
  "fst (init (ex_class True) ex_host ''node'' ''alpha'' False ''dev'' ex_state) = Inr ()"
  by code_simp


text \<open>The constructor run on the example host, and the three names it yields.\<close>

theorem docker_names_of_constructed_witness:
  "fst (init (ex_class True) ex_host ''node'' ''alpha'' False ''dev'' ex_state) = Inr () \<and>
   docker_container_name ex_host
     (self (snd (init (ex_class True) ex_host ''node'' ''alpha'' False ''dev'' ex_state))) =
     Inr ''vantage6-alpha-user'' \<and>
   docker_network_name ex_host
     (self (snd (init (ex_class True) ex_host ''node'' ''alpha'' False ''dev'' ex_state))) =
     Inr ''vantage6-alpha-user'' \<and>
   docker_temporary_volume_name ex_host
     (self (snd (init (ex_class True) ex_host ''node'' ''alpha'' False ''dev'' ex_state))) 42 =
     Inr ''vantage6-alpha-user-42-tmpvol''"
proof -
  have run: "init (ex_class True) ex_host ''node'' ''alpha'' False ''dev'' ex_state =
    (Inr (), snd (init (ex_class True) ex_host ''node'' ''alpha'' False ''dev'' ex_state))"
    using ex_init_dev by (simp add: prod_eq_iff)
  have app: "APPNAME ex_host = ''vantage6''"
    by (simp add: ex_host_def)
  show ?thesis
    using docker_names_of_constructed [OF run, of 42] ex_init_dev by (auto simp: app)
qed

section \<open>Folders and discovery of configurations\<close>

text \<open>
  Claim C8. \<^verbatim>\<open>instance_folders\<close> is a function of its arguments and of the directories
  the host reports, and nothing else: with system folders the log folder is the site
  data directory joined with the instance type, the data folder is that joined with the
  instance name, and the config folder is the site config directory joined with the
  instance type; otherwise the user log, user data and user config directories take
  these places.
\<close>

theorem instance_folders_exact:
  "instance_folders H instance_type instance_name True =
     [(''log'', joinpath H (Path H (site_data_dir (AppDirs H (APPNAME H) []))) instance_type),
      (''data'', joinpath H (joinpath H (Path H (site_data_dir (AppDirs H (APPNAME H) []))) instance_type)
                   instance_name),
      (''config'', joinpath H (Path H (site_config_dir (AppDirs H (APPNAME H) []))) instance_type)] \<and>
   instance_folders H instance_type instance_name False =
     [(''log'', joinpath H (Path H (user_log_dir (AppDirs H (APPNAME H) []))) instance_type),
      (''data'', joinpath H (joinpath H (Path H (user_data_dir (AppDirs H (APPNAME H) []))) instance_type)
                   instance_name),
      (''config'', joinpath H (Path H (user_config_dir (AppDirs H (APPNAME H) []))) instance_type)]"
  by (simp add: instance_folders_def Let_def)

lemma load_each_acc:
  "load_each K files configs failed =
     (configs @ map (\<lambda>f. projr (from_file K f)) (filter (accepted K) files),
      failed @ filter (\<lambda>f. \<not> accepted K f) files)"
proof (induction files arbitrary: configs failed)
  case Nil
  then show ?case by simp
next
  case (Cons f fs)
  show ?case
  proof (cases "from_file K f")
    case (Inl e)
    then show ?thesis by (simp add: Cons accepted_def)
  next
    case (Inr cm)
    then show ?thesis by (simp add: Cons accepted_def)
  qed
qed

text \<open>
  Claim C7. \<^verbatim>\<open>available_configurations\<close> always returns: the failed list holds, in
  order, the candidate files whose load raises or yields an empty manager, the success
  list holds the managers of all other candidates, and the two lists together have one
  entry for each candidate file.
\<close>

theorem available_configurations_partition:
  "available_configurations K H ex instance_type system_folders =
     Inr (map (\<lambda>f. projr (from_file K f))
            (filter (accepted K)
               (glob H ex (Path H (joinpath H (Path H
                  ((if system_folders then site_config_dir else user_config_dir)
                     (AppDirs H (APPNAME H) []))) instance_type)) ''*.yaml'')),
          filter (\<lambda>f. \<not> accepted K f)
               (glob H ex (Path H (joinpath H (Path H
                  ((if system_folders then site_config_dir else user_config_dir)
                     (AppDirs H (APPNAME H) []))) instance_type)) ''*.yaml'')) \<and>
   (case available_configurations K H ex instance_type system_folders of
      Inl e \<Rightarrow> False
    | Inr (configs, failed) \<Rightarrow>
        length configs + length failed =
          length (glob H ex (Path H (joinpath H (Path H
                  ((if system_folders then site_config_dir else user_config_dir)
                     (AppDirs H (APPNAME H) []))) instance_type)) ''*.yaml''))"
  by (simp add: available_configurations_def instance_folders_def Let_def load_each_acc
        sum_length_filter_compl)

text \<open>
  On the example directory, with one well-formed file, one that does not load and one
  that is empty, there is one success and there are two failures.
\<close>

lemma available_configurations_at_example:
  "(case available_configurations (ex_class True) ex_host ex_files ''node'' False of
      Inl e \<Rightarrow> False
    | Inr (configs, failed) \<Rightarrow>
        map cm_name configs = [''alpha''] \<and>
        failed = [''/home/u/.config/vantage6/node/broken.yaml'',
                  ''/home/u/.config/vantage6/node/empty.yaml''])"
  by code_simp

section \<open>The setters\<close>

lemma bindS_Inl: "m s = (Inl e, s') \<Longrightarrow> bindS m f s = (Inl e, s')"
  by (simp add: bindS_def)

lemma bindS_Inr: "m s = (Inr v, s') \<Longrightarrow> bindS m f s = f v s'"
  by (simp add: bindS_def)

lemma config_file_setter_absent:
  "Path H p \<notin> existing s \<Longrightarrow>
   config_file_setter K H p s = (Inl (AssertionError (''config '' @ p @ '' not found'')), s)"
  by (simp add: config_file_setter_def)

lemma config_file_setter_present:
  "Path H p \<in> existing s \<Longrightarrow>
   config_file_setter K H p s =
     (case from_file K p of
        Inl e \<Rightarrow> (Inl e, s\<lparr>self := (self s)\<lparr>self_config_file := Some (Path H p)\<rparr>\<rparr>)
      | Inr cm \<Rightarrow> (Inr (), s\<lparr>self := (self s)\<lparr>self_config_file := Some (Path H p),
                                     self_config_manager := Some cm\<rparr>\<rparr>))"
  by (simp add: config_file_setter_def bindS_simps assign_def split: sum.splits)

lemma init_unfold:
  "init K H t n sf env s =
     bindS (config_file_setter K H
        (joinpath H (joinpath H (Path H ((if sf then site_config_dir else user_config_dir)
           (AppDirs H (APPNAME H) []))) t) (n @ ''.yaml''))) (\<lambda>_.
     bindS (environment_setter K H env) (\<lambda>_.
     assign (\<lambda>c. c\<lparr>self_log := Some NoLogger\<rparr>))) (init_folders H t n sf s)"
  by (simp add: init_def init_folders_def bindS_simps set_folders_def instance_folders_def
        Let_def attr_def)

text \<open>
  Claim C3. Assigning a path to \<^verbatim>\<open>config_file\<close> fails with the assertion
  \<^verbatim>\<open>config <path> not found\<close> and changes nothing when no file exists at the path; when
  the file exists and loads, the assignment stores the path and the loaded manager. So
  \<^verbatim>\<open>__init__\<close> over a config file that does not exist aborts with that assertion and
  loads no manager.
\<close>

theorem config_file_setter_cases:
  "(Path H p \<notin> existing s \<longrightarrow>
      config_file_setter K H p s = (Inl (AssertionError (''config '' @ p @ '' not found'')), s)) \<and>
   (Path H p \<in> existing s \<longrightarrow> from_file K p = Inr cm \<longrightarrow>
      config_file_setter K H p s =
        (Inr (), s\<lparr>self := (self s)\<lparr>self_config_file := Some (Path H p),
                                     self_config_manager := Some cm\<rparr>\<rparr>)) \<and>
   (Path H (joinpath H (joinpath H (Path H ((if system_folders then site_config_dir else user_config_dir)
        (AppDirs H (APPNAME H) []))) instance_type) (instance_name @ ''.yaml'')) \<notin> existing s \<longrightarrow>
      fst (init K H instance_type instance_name system_folders environment s) =
        Inl (AssertionError (''config '' @
          joinpath H (joinpath H (Path H ((if system_folders then site_config_dir else user_config_dir)
            (AppDirs H (APPNAME H) []))) instance_type) (instance_name @ ''.yaml'') @ '' not found'')) \<and>
      self_config_manager (self (snd (init K H instance_type instance_name system_folders
        environment s))) = self_config_manager (self s))"
proof (intro conjI impI)
  assume "Path H p \<notin> existing s"
  then show "config_file_setter K H p s = (Inl (AssertionError (''config '' @ p @ '' not found'')), s)"
    by (rule config_file_setter_absent)
next
  assume "Path H p \<in> existing s" "from_file K p = Inr cm"
  then show "config_file_setter K H p s =
        (Inr (), s\<lparr>self := (self s)\<lparr>self_config_file := Some (Path H p),
                                     self_config_manager := Some cm\<rparr>\<rparr>)"
    by (simp add: config_file_setter_present)
next
  let ?p = "joinpath H (joinpath H (Path H ((if system_folders then site_config_dir else user_config_dir)
        (AppDirs H (APPNAME H) []))) instance_type) (instance_name @ ''.yaml'')"
  assume "Path H ?p \<notin> existing s"
  then have a: "Path H ?p \<notin> existing (init_folders H instance_type instance_name system_folders s)"
    by (simp add: init_folders_def)
  have r: "init K H instance_type instance_name system_folders environment s =
      (Inl (AssertionError (''config '' @ ?p @ '' not found'')),
       init_folders H instance_type instance_name system_folders s)"
    unfolding init_unfold
    by (rule bindS_Inl) (rule config_file_setter_absent [OF a])
  show "fst (init K H instance_type instance_name system_folders environment s) =
        Inl (AssertionError (''config '' @ ?p @ '' not found''))"
    by (simp add: r)
  show "self_config_manager (self (snd (init K H instance_type instance_name system_folders
        environment s))) = self_config_manager (self s)"
    by (simp add: r init_folders_def)
qed

text \<open>A missing path, the file \<open>alpha.yaml\<close>, and a constructor call for a missing instance.\<close>

theorem config_file_setter_cases_witness:
  "(Path ex_host ''/tmp/none.yaml'' \<notin> existing ex_state \<and>
      config_file_setter (ex_class True) ex_host ''/tmp/none.yaml'' ex_state =
        (Inl (AssertionError ''config /tmp/none.yaml not found''), ex_state)) \<and>
   (Path ex_host ''/home/u/.config/vantage6/node/alpha.yaml'' \<in> existing ex_state \<and>
    from_file (ex_class True) ''/home/u/.config/vantage6/node/alpha.yaml'' = Inr ex_manager \<and>
      config_file_setter (ex_class True) ex_host ''/home/u/.config/vantage6/node/alpha.yaml'' ex_state =
        (Inr (), ex_state\<lparr>self := (self ex_state)\<lparr>self_config_file := Some ''/home/u/.config/vantage6/node/alpha.yaml'',
                                     self_config_manager := Some ex_manager\<rparr>\<rparr>)) \<and>
   (''/home/u/.config/vantage6/node/ghost.yaml'' \<notin> existing ex_state \<and>
      fst (init (ex_class True) ex_host ''node'' ''ghost'' False ''dev'' ex_state) =
        Inl (AssertionError ''config /home/u/.config/vantage6/node/ghost.yaml not found''))"
proof -
  have P: "Path ex_host = (\<lambda>p. p)"
    by (simp add: ex_host_def)
  have a: "Path ex_host ''/tmp/none.yaml'' \<notin> existing ex_state"
    by (simp add: ex_host_def ex_state_def ex_files_def)
  have b: "Path ex_host ''/home/u/.config/vantage6/node/alpha.yaml'' \<in> existing ex_state"
    by (simp add: ex_host_def ex_state_def ex_files_def)
  have c: "from_file (ex_class True) ''/home/u/.config/vantage6/node/alpha.yaml'' = Inr ex_manager"
    by (simp add: ex_class_def)
  have g: "joinpath ex_host (joinpath ex_host (Path ex_host
             ((if False then site_config_dir else user_config_dir)
                (AppDirs ex_host (APPNAME ex_host) []))) ''node'') (''ghost'' @ ''.yaml'') =
           ''/home/u/.config/vantage6/node/ghost.yaml''"
    by (simp add: ex_host_def)
  have d: "''/home/u/.config/vantage6/node/ghost.yaml'' \<notin> existing ex_state"
    by (simp add: ex_state_def ex_files_def)
  note t1 = config_file_setter_cases [of ex_host "''/tmp/none.yaml''" ex_state "ex_class True"
      ex_manager False "''node''" "''ghost''" "''dev''"]
  note t2 = config_file_setter_cases [of ex_host "''/home/u/.config/vantage6/node/alpha.yaml''" ex_state
      "ex_class True" ex_manager False "''node''" "''ghost''" "''dev''"]
  have r1: "config_file_setter (ex_class True) ex_host ''/tmp/none.yaml'' ex_state =
        (Inl (AssertionError ''config /tmp/none.yaml not found''), ex_state)"
    using t1 a by simp
  have r2: "config_file_setter (ex_class True) ex_host ''/home/u/.config/vantage6/node/alpha.yaml'' ex_state =
        (Inr (), ex_state\<lparr>self := (self ex_state)\<lparr>self_config_file := Some ''/home/u/.config/vantage6/node/alpha.yaml'',
                                     self_config_manager := Some ex_manager\<rparr>\<rparr>)"
    using t2 b c by (simp add: P)
  have r3: "fst (init (ex_class True) ex_host ''node'' ''ghost'' False ''dev'' ex_state) =
        Inl (AssertionError ''config /home/u/.config/vantage6/node/ghost.yaml not found'')"
    using t1 d unfolding g by (simp add: P)
  show ?thesis
    using a b c d r1 r2 r3 by blast
qed

lemma environment_setter_unset:
  "self_config_manager (self s) = None \<Longrightarrow>
   environment_setter K H env s = (Inl (AttributeError ''config_manager''), s)"
  by (simp add: environment_setter_def bindS_simps attr_def)

lemma environment_setter_falsy:
  "self_config_manager (self s) = Some cm \<Longrightarrow> \<not> cm_truthy cm \<Longrightarrow>
   environment_setter K H env s =
     (Inl (AssertionError ''Environment set before ConfigurationManager is initialized...''), s)"
  by (simp add: environment_setter_def bindS_simps attr_def liftE_def)

lemma environment_setter_not_found:
  "self_config_manager (self s) = Some cm \<Longrightarrow> cm_truthy cm \<Longrightarrow>
   env \<notin> set (cm_available_environments cm) \<Longrightarrow>
   environment_setter K H env s =
     (Inl (AssertionError (''Requested environment '' @ env @ '' is not found in the configuration'')), s)"
  by (simp add: environment_setter_def bindS_simps attr_def liftE_def)

lemma environment_setter_found:
  "self_config_manager (self s) = Some cm \<Longrightarrow> cm_truthy cm \<Longrightarrow>
   env \<in> set (cm_available_environments cm) \<Longrightarrow>
   environment_setter K H env s =
     (if LOGGING_ENABLED K then setup_logging H else retS ())
       (s\<lparr>self := (self s)\<lparr>self_environment := Some env, self_config := Some (cm_get cm env)\<rparr>\<rparr>)"
  by (simp add: environment_setter_def bindS_simps attr_def liftE_def)

text \<open>
  Claim C2. Assigning \<^verbatim>\<open>environment\<close> fails before anything is stored when no
  configuration manager has been loaded: reading the attribute that was never assigned
  raises, and a manager that is falsy fails the first assertion. It fails with the
  assertion \<^verbatim>\<open>Requested environment <name> is not found in the configuration\<close>, which
  names the requested environment, when the name is not among the available
  environments. In each case the state is the one before the assignment. Hence
  \<^verbatim>\<open>__init__\<close> over a file that loads fails with that assertion when the environment is
  absent from it.
\<close>

theorem environment_setter_failures:
  "(self_config_manager (self s) = None \<longrightarrow>
      environment_setter K H env s = (Inl (AttributeError ''config_manager''), s)) \<and>
   (self_config_manager (self s) = Some cm \<longrightarrow> \<not> cm_truthy cm \<longrightarrow>
      environment_setter K H env s =
        (Inl (AssertionError ''Environment set before ConfigurationManager is initialized...''), s)) \<and>
   (self_config_manager (self s) = Some cm \<longrightarrow> cm_truthy cm \<longrightarrow>
    env \<notin> set (cm_available_environments cm) \<longrightarrow>
      environment_setter K H env s =
        (Inl (AssertionError
           (''Requested environment '' @ env @ '' is not found in the configuration'')), s)) \<and>
   (Path H (joinpath H (joinpath H (Path H ((if system_folders then site_config_dir else user_config_dir)
        (AppDirs H (APPNAME H) []))) instance_type) (instance_name @ ''.yaml'')) \<in> existing s \<longrightarrow>
    from_file K (joinpath H (joinpath H (Path H ((if system_folders then site_config_dir else user_config_dir)
        (AppDirs H (APPNAME H) []))) instance_type) (instance_name @ ''.yaml'')) = Inr cm \<longrightarrow>
    cm_truthy cm \<longrightarrow> env \<notin> set (cm_available_environments cm) \<longrightarrow>
      fst (init K H instance_type instance_name system_folders env s) =
        Inl (AssertionError
           (''Requested environment '' @ env @ '' is not found in the configuration'')))"
proof (intro conjI impI)
  let ?p = "joinpath H (joinpath H (Path H ((if system_folders then site_config_dir else user_config_dir)
        (AppDirs H (APPNAME H) []))) instance_type) (instance_name @ ''.yaml'')"
  let ?s0 = "init_folders H instance_type instance_name system_folders s"
  let ?s1 = "?s0\<lparr>self := (self ?s0)\<lparr>self_config_file := Some (Path H ?p),
                                     self_config_manager := Some cm\<rparr>\<rparr>"
  assume ex: "Path H ?p \<in> existing s" and ld: "from_file K ?p = Inr cm"
    and tr: "cm_truthy cm" and nf: "env \<notin> set (cm_available_environments cm)"
  from ex have "Path H ?p \<in> existing ?s0"
    by (simp add: init_folders_def)
  then have c: "config_file_setter K H ?p ?s0 = (Inr (), ?s1)"
    by (simp add: config_file_setter_present ld)
  have e: "environment_setter K H env ?s1 =
     (Inl (AssertionError (''Requested environment '' @ env @ '' is not found in the configuration'')), ?s1)"
    by (rule environment_setter_not_found [OF _ tr nf]) simp
  show "fst (init K H instance_type instance_name system_folders env s) =
        Inl (AssertionError (''Requested environment '' @ env @ '' is not found in the configuration''))"
    unfolding init_unfold
    by (simp add: bindS_def c e)
qed (simp_all add: environment_setter_unset environment_setter_falsy environment_setter_not_found)

text \<open>
  The three failures on the example state, and the constructor asked for the
  environment \<open>staging\<close>, which \<open>alpha.yaml\<close> does not have.
\<close>

theorem environment_setter_failures_witness:
  "(self_config_manager (self ex_state) = None \<and>
      environment_setter (ex_class True) ex_host ''dev'' ex_state =
        (Inl (AttributeError ''config_manager''), ex_state)) \<and>
   (self_config_manager (self (ex_state\<lparr>self := new_object\<lparr>self_config_manager :=
        Some (ex_manager\<lparr>cm_truthy := False\<rparr>)\<rparr>\<rparr>)) = Some (ex_manager\<lparr>cm_truthy := False\<rparr>) \<and>
    \<not> cm_truthy (ex_manager\<lparr>cm_truthy := False\<rparr>) \<and>
      fst (environment_setter (ex_class True) ex_host ''dev''
        (ex_state\<lparr>self := new_object\<lparr>self_config_manager :=
           Some (ex_manager\<lparr>cm_truthy := False\<rparr>)\<rparr>\<rparr>)) =
        Inl (AssertionError ''Environment set before ConfigurationManager is initialized...'')) \<and>
   (self_config_manager (self (ex_state\<lparr>self := new_object\<lparr>self_config_manager := Some ex_manager\<rparr>\<rparr>))
      = Some ex_manager \<and>
    cm_truthy ex_manager \<and> ''staging'' \<notin> set (cm_available_environments ex_manager) \<and>
      environment_setter (ex_class True) ex_host ''staging''
        (ex_state\<lparr>self := new_object\<lparr>self_config_manager := Some ex_manager\<rparr>\<rparr>) =
        (Inl (AssertionError ''Requested environment staging is not found in the configuration''),
         ex_state\<lparr>self := new_object\<lparr>self_config_manager := Some ex_manager\<rparr>\<rparr>)) \<and>
   (''/home/u/.config/vantage6/node/alpha.yaml'' \<in> existing ex_state \<and>
      fst (init (ex_class True) ex_host ''node'' ''alpha'' False ''staging'' ex_state) =
        Inl (AssertionError ''Requested environment staging is not found in the configuration''))"
proof -
  let ?f = "ex_state\<lparr>self := new_object\<lparr>self_config_manager :=
        Some (ex_manager\<lparr>cm_truthy := False\<rparr>)\<rparr>\<rparr>"
  let ?t = "ex_state\<lparr>self := new_object\<lparr>self_config_manager := Some ex_manager\<rparr>\<rparr>"
  have a: "self_config_manager (self ex_state) = None"
    by (simp add: ex_state_def new_object_def)
  have b: "self_config_manager (self ?f) = Some (ex_manager\<lparr>cm_truthy := False\<rparr>)"
    "\<not> cm_truthy (ex_manager\<lparr>cm_truthy := False\<rparr>)"
    by simp_all
  have c: "self_config_manager (self ?t) = Some ex_manager" "cm_truthy ex_manager"
    "''staging'' \<notin> set (cm_available_environments ex_manager)"
    by (simp_all add: ex_manager_def)
  have d: "''/home/u/.config/vantage6/node/alpha.yaml'' \<in> existing ex_state"
    by (simp add: ex_state_def ex_files_def)
  have p: "joinpath ex_host (joinpath ex_host (Path ex_host
             ((if False then site_config_dir else user_config_dir)
                (AppDirs ex_host (APPNAME ex_host) []))) ''node'') (''alpha'' @ ''.yaml'') =
           ''/home/u/.config/vantage6/node/alpha.yaml''"
    by (simp add: ex_host_def)
  have P: "Path ex_host = (\<lambda>p. p)"
    by (simp add: ex_host_def)
  have l: "from_file (ex_class True) ''/home/u/.config/vantage6/node/alpha.yaml'' = Inr ex_manager"
    by (simp add: ex_class_def)
  have r1: "environment_setter (ex_class True) ex_host ''dev'' ex_state =
        (Inl (AttributeError ''config_manager''), ex_state)"
    using environment_setter_failures [of ex_state "ex_class True" ex_host "''dev''" ex_manager
        False "''node''" "''alpha''"] a by simp
  have r2: "fst (environment_setter (ex_class True) ex_host ''dev'' ?f) =
        Inl (AssertionError ''Environment set before ConfigurationManager is initialized...'')"
    using environment_setter_failures [of ?f "ex_class True" ex_host "''dev''"
        "ex_manager\<lparr>cm_truthy := False\<rparr>" False "''node''" "''alpha''"] b by simp
  have r3: "environment_setter (ex_class True) ex_host ''staging'' ?t =
        (Inl (AssertionError ''Requested environment staging is not found in the configuration''), ?t)"
    using environment_setter_failures [of ?t "ex_class True" ex_host "''staging''" ex_manager
        False "''node''" "''alpha''"] c by simp
  have r4: "fst (init (ex_class True) ex_host ''node'' ''alpha'' False ''staging'' ex_state) =
        Inl (AssertionError ''Requested environment staging is not found in the configuration'')"
    using environment_setter_failures [of ex_state "ex_class True" ex_host "''staging''" ex_manager
        False "''node''" "''alpha''"] c(2,3) d l unfolding p by (simp add: P)
  show ?thesis
    using a b c d r1 r2 r3 r4 by blast
qed

section \<open>The log file and configuration discovery\<close>

lemma logging_without_file_cases:
  assumes "logging_without_file cfg"
  obtains kvs l where "cfg = PDict kvs" "map_of kvs ''logging'' = Some (PDict l)"
    "map_of l ''file'' = None \<or> (\<exists>f. map_of l ''file'' = Some f \<and> \<not> truthy f)"
proof (cases cfg)
  case (PDict kvs)
  show ?thesis
  proof (cases "map_of kvs ''logging''")
    case None
    with assms PDict show ?thesis by (simp add: logging_without_file_def)
  next
    case (Some lg)
    show ?thesis
    proof (cases lg)
      case (PDict l)
      with assms \<open>cfg = PDict kvs\<close> Some that show ?thesis
        by (cases "map_of l ''file''") (simp_all add: logging_without_file_def)
    qed (use assms \<open>cfg = PDict kvs\<close> Some in \<open>simp_all add: logging_without_file_def\<close>)
  qed
qed (use assms in \<open>simp_all add: logging_without_file_def\<close>)

lemma log_file_default:
  assumes "self_config_manager c = Some cm" "cm_truthy cm" "self_config c = Some cfg"
    and "logging_without_file cfg"
    and "self_environment c = Some env" "self_scope c = Some sc" "self_log_dir c = Some d"
  shows "log_file H c = Inr (joinpath H d (cm_name cm @ ''-'' @ env @ ''-'' @ sc @ '' + .log''))"
proof -
  from assms(4) obtain kvs l where k: "cfg = PDict kvs" "map_of kvs ''logging'' = Some (PDict l)"
    "map_of l ''file'' = None \<or> (\<exists>f. map_of l ''file'' = Some f \<and> \<not> truthy f)"
    by (rule logging_without_file_cases)
  from k(3) assms(1,2,3,5,6,7) k(1,2) show ?thesis
    by (auto simp: log_file_def bindE_def attr_def dict_get_def)
qed

lemma log_file_no_scope:
  assumes "self_config_manager c = Some cm" "cm_truthy cm" "self_config c = Some cfg"
    and "logging_without_file cfg"
    and "self_environment c = Some env" "self_scope c = None"
  shows "log_file H c = Inl (AttributeError ''scope'')"
proof -
  from assms(4) obtain kvs l where k: "cfg = PDict kvs" "map_of kvs ''logging'' = Some (PDict l)"
    "map_of l ''file'' = None \<or> (\<exists>f. map_of l ''file'' = Some f \<and> \<not> truthy f)"
    by (rule logging_without_file_cases)
  from k(3) assms(1,2,3,5,6) k(1,2) show ?thesis
    by (auto simp: log_file_def bindE_def attr_def dict_get_def)
qed

lemma log_file_override:
  assumes "self_config_manager c = Some cm" "cm_truthy cm" "self_config c = Some cfg"
    and "logging_with_file cfg f" "self_log_dir c = Some d"
  shows "log_file H c = Inr (joinpath H d f)"
proof (cases cfg)
  case (PDict kvs)
  show ?thesis
  proof (cases "map_of kvs ''logging''")
    case None
    with assms PDict show ?thesis by (simp add: logging_with_file_def)
  next
    case (Some lg)
    show ?thesis
    proof (cases lg)
      case (PDict l)
      with assms \<open>cfg = PDict kvs\<close> Some show ?thesis
        by (auto simp: logging_with_file_def log_file_def bindE_def attr_def dict_get_def
              truediv_def)
    qed (use assms \<open>cfg = PDict kvs\<close> Some in \<open>simp_all add: logging_with_file_def\<close>)
  qed
qed (use assms in \<open>simp_all add: logging_with_file_def\<close>)

text \<open>
  Claim C4, evaluated. The environment \<open>dev\<close> of the example has a \<^verbatim>\<open>logging\<close> section
  without a \<^verbatim>\<open>file\<close> entry. On the context constructed for instance \<open>alpha\<close>, user
  scope, the log file is the log directory joined with \<^verbatim>\<open>alpha-dev-user + .log\<close>: the
  f-string of the source ends in the literal text \<^verbatim>\<open> + .log\<close>. It is not the log
  directory joined with \<^verbatim>\<open>alpha-dev-user.log\<close>. (The general forms are
  \<open>log_file_default\<close> and, for a \<^verbatim>\<open>file\<close> entry, \<open>log_file_override\<close>.)
\<close>

theorem log_file_default_name_at_example:
  "logging_without_file ex_dev \<and>
   self_config (self (snd (init (ex_class False) ex_host ''node'' ''alpha'' False ''dev'' ex_state))) =
     Some ex_dev \<and>
   self_log_dir (self (snd (init (ex_class False) ex_host ''node'' ''alpha'' False ''dev'' ex_state))) =
     Some ''/home/u/.cache/vantage6/log/node'' \<and>
   log_file ex_host
     (self (snd (init (ex_class False) ex_host ''node'' ''alpha'' False ''dev'' ex_state))) =
     Inr (joinpath ex_host ''/home/u/.cache/vantage6/log/node'' ''alpha-dev-user + .log'') \<and>
   log_file ex_host
     (self (snd (init (ex_class False) ex_host ''node'' ''alpha'' False ''dev'' ex_state))) \<noteq>
     Inr (joinpath ex_host ''/home/u/.cache/vantage6/log/node'' ''alpha-dev-user.log'')"
  by code_simp




text \<open>
  For a name that the manager does not hold as an environment, the lookup of line 179
  does not check presence: another attribute answers with its own truth value, and a
  name that is no attribute raises.
\<close>

lemma config_exists_other_names:
  "''name'' \<notin> set (cm_available_environments ex_manager) \<and>
   config_exists (ex_class True) ex_host ex_files ''node'' ''alpha'' ''name'' False = Inr True \<and>
   ''staging'' \<notin> set (cm_available_environments ex_manager) \<and>
   config_exists (ex_class True) ex_host ex_files ''node'' ''alpha'' ''staging'' False =
     Inl (AttributeError ''staging'')"
  by code_simp

section \<open>What a call that returns has done\<close>

lemma bindS_returns:
  "bindS m f s = (Inr v, s') \<longleftrightarrow> (\<exists>u t. m s = (Inr u, t) \<and> f u t = (Inr v, s'))"
proof (cases "m s")
  case (Pair r t)
  then show ?thesis
    by (cases r) (simp_all add: bindS_def)
qed

lemma bindE_returns: "bindE r f = Inr v \<longleftrightarrow> (\<exists>u. r = Inr u \<and> f u = Inr v)"
  by (cases r) (simp_all add: bindE_def)

lemma attr_returns: "attr nm x = Inr v \<longleftrightarrow> x = Some v"
  by (cases x) (simp_all add: attr_def)

lemma reads_returns: "reads f s = (Inr v, t) \<longleftrightarrow> f (self s) = Inr v \<and> t = s"
  by (auto simp: reads_def)

lemma liftE_returns: "liftE r s = (Inr v, t) \<longleftrightarrow> r = Inr v \<and> t = s"
  by (auto simp: liftE_def)

lemma retS_returns: "retS v s = (Inr u, t) \<longleftrightarrow> u = v \<and> t = s"
  by (auto simp: retS_def)

lemma modify_returns: "modify g s = (Inr u, t) \<longleftrightarrow> t = g s"
  by (auto simp: modify_def)

lemma assign_returns: "assign g s = (Inr u, t) \<longleftrightarrow> t = s\<lparr>self := g (self s)\<rparr>"
  by (auto simp: assign_def)

lemma os_makedirs_returns:
  "os_makedirs H d s = (Inr u, t) \<longleftrightarrow>
     (\<exists>ex. makedirs H (existing s) d = Inr ex \<and> t = s\<lparr>existing := ex\<rparr>)"
  by (cases "makedirs H (existing s) d") (auto simp: os_makedirs_def)

lemma root_setLevel_returns:
  "root_setLevel level s = (Inr u, t) \<longleftrightarrow>
     (\<exists>n. checkLevel level = Inr n \<and> t = s\<lparr>root_level := n\<rparr>)"
  by (cases "checkLevel level") (auto simp: root_setLevel_def)

lemma new_RotatingFileHandler_returns:
  "new_RotatingFileHandler H fn mb bc s = (Inr x, t) \<longleftrightarrow>
     (\<exists>n ex. mb = PInt n \<and> open_append H (existing s) fn = Inr ex \<and> x = (fn, n, bc) \<and>
        t = s\<lparr>existing := ex\<rparr>)"
  by (cases mb; cases "open_append H (existing s) fn")
    (auto simp: new_RotatingFileHandler_def)

lemma new_Formatter_returns:
  "new_Formatter H fmt datefmt = Inr fm \<longleftrightarrow>
     Formatter_raises H fmt datefmt = None \<and> fm = Formatter fmt datefmt"
  by (cases "Formatter_raises H fmt datefmt") (auto simp: new_Formatter_def)

lemmas returns_simps = bindS_returns bindE_returns attr_returns reads_returns liftE_returns
  retS_returns modify_returns assign_returns os_makedirs_returns root_setLevel_returns
  new_RotatingFileHandler_returns new_Formatter_returns

lemma banner_returns:
  "banner H s = (Inr u, t) \<longleftrightarrow>
     (\<exists>env cf lf. self_environment (self s) = Some env \<and> self_config_file (self s) = Some cf \<and>
        log_file H (self s) = Inr lf \<and>
        t = s\<lparr>info_records := info_records s @
                [replicate 80 (CHR ''#''), ''#'' @ center78 (APPNAME H) @ ''#'',
                 replicate 80 (CHR ''#''),
                 ''Started application '' @ APPNAME H @ '' with environment '' @ env,
                 ''Current working directory is '' @ [CHR 0x27] @ getcwd H @ [CHR 0x27],
                 ''Succesfully loaded configuration from '' @ [CHR 0x27] @ cf @ [CHR 0x27],
                 ''Logging to '' @ [CHR 0x27] @ lf @ [CHR 0x27]],
              self := (self s)\<lparr>self_log := Some (Logger ''context'')\<rparr>\<rparr>)"
  unfolding banner_def info_def
  by (auto simp: returns_simps)

lemma add_console_returns:
  "add_console H level fmt datefmt s = (Inr u, t) \<longleftrightarrow>
     (\<exists>lv. checkLevel level = Inr lv \<and> Formatter_raises H fmt datefmt = None \<and>
        t = s\<lparr>root_handlers := root_handlers s @ [ColorStreamHandler lv (Formatter fmt datefmt)]\<rparr>)"
  unfolding add_console_def addHandler_def
  by (auto simp: returns_simps)


lemma if_prog_returns:
  "(if c then a else b) s = (Inr u, t) \<longleftrightarrow> (c \<and> a s = (Inr u, t)) \<or> (\<not> c \<and> b s = (Inr u, t))"
  by simp

lemma setup_logging_returns:
  assumes "setup_logging H s = (Inr (), s')"
  shows "\<exists>cfg lg l nm level lv fmt datefmt lf k n bc uc env cf ex1 ex2.
     self_config (self s) = Some cfg \<and> subscript cfg ''logging'' = Inr lg \<and>
     subscript lg ''level'' = Inr l \<and> upper l = Inr nm \<and> logging_getattr H nm = Some level \<and>
     checkLevel level = Inr lv \<and>
     subscript lg ''format'' = Inr fmt \<and>
     dict_get_default lg ''datefmt'' (PStr []) = Inr datefmt \<and>
     Formatter_raises H fmt datefmt = None \<and>
     log_file H (self s) = Inr lf \<and>
     subscript lg ''max_size'' = Inr k \<and> mul_1024 k = Inr (PInt n) \<and>
     subscript lg ''backup_count'' = Inr bc \<and>
     subscript lg ''use_console'' = Inr uc \<and>
     self_environment (self s) = Some env \<and> self_config_file (self s) = Some cf \<and>
     makedirs H (existing s) (dirname H lf) = Inr ex1 \<and> open_append H ex1 lf = Inr ex2 \<and>
     s' = s\<lparr>existing := ex2, root_level := lv,
            root_handlers := root_handlers s @
              RotatingFileHandler lf n bc lv (Formatter fmt datefmt) #
              (if truthy uc then [ColorStreamHandler lv (Formatter fmt datefmt)] else []),
            capture_warnings := True,
            info_records := info_records s @
                [replicate 80 (CHR ''#''), ''#'' @ center78 (APPNAME H) @ ''#'',
                 replicate 80 (CHR ''#''),
                 ''Started application '' @ APPNAME H @ '' with environment '' @ env,
                 ''Current working directory is '' @ [CHR 0x27] @ getcwd H @ [CHR 0x27],
                 ''Succesfully loaded configuration from '' @ [CHR 0x27] @ cf @ [CHR 0x27],
                 ''Logging to '' @ [CHR 0x27] @ lf @ [CHR 0x27]],
            self := (self s)\<lparr>self_log := Some (Logger ''context'')\<rparr>\<rparr>"
  using assms unfolding setup_logging_def addHandler_def
  by (auto simp: returns_simps banner_returns add_console_returns if_prog_returns)

section \<open>Activation and the handlers of the root logger\<close>

lemma grows_bindS_pre: "grows 0 m \<Longrightarrow> (\<And>v. grows n (f v)) \<Longrightarrow> grows n (bindS m f)"
  unfolding grows_def bindS_def
proof (intro allI)
  fix s
  assume m: "\<forall>s. prefix (root_handlers s) (root_handlers (snd (m s))) \<and>
              length (root_handlers (snd (m s))) \<le> length (root_handlers s) + 0"
    and f: "\<And>v. \<forall>s. prefix (root_handlers s) (root_handlers (snd (f v s))) \<and>
              length (root_handlers (snd (f v s))) \<le> length (root_handlers s) + n"
  obtain r t where mt: "m s = (r, t)" by (cases "m s")
  from m [rule_format, of s] mt have p: "prefix (root_handlers s) (root_handlers t)"
    "length (root_handlers t) \<le> length (root_handlers s)" by simp_all
  show "prefix (root_handlers s)
          (root_handlers (snd (case m s of (Inl e, s') \<Rightarrow> (Inl e, s') | (Inr v, s') \<Rightarrow> f v s'))) \<and>
        length (root_handlers (snd (case m s of (Inl e, s') \<Rightarrow> (Inl e, s') | (Inr v, s') \<Rightarrow> f v s')))
          \<le> length (root_handlers s) + n"
  proof (cases r)
    case (Inl e)
    with mt p show ?thesis by simp
  next
    case (Inr v)
    from f [of v, rule_format, of t] p mt Inr show ?thesis
      by (auto intro: prefix_order.trans)
  qed
qed

lemma grows_bindS_post: "grows n m \<Longrightarrow> (\<And>v. grows 0 (f v)) \<Longrightarrow> grows n (bindS m f)"
  unfolding grows_def bindS_def
proof (intro allI)
  fix s
  assume m: "\<forall>s. prefix (root_handlers s) (root_handlers (snd (m s))) \<and>
              length (root_handlers (snd (m s))) \<le> length (root_handlers s) + n"
    and f: "\<And>v. \<forall>s. prefix (root_handlers s) (root_handlers (snd (f v s))) \<and>
              length (root_handlers (snd (f v s))) \<le> length (root_handlers s) + 0"
  obtain r t where mt: "m s = (r, t)" by (cases "m s")
  from m [rule_format, of s] mt have p: "prefix (root_handlers s) (root_handlers t)"
    "length (root_handlers t) \<le> length (root_handlers s) + n" by simp_all
  show "prefix (root_handlers s)
          (root_handlers (snd (case m s of (Inl e, s') \<Rightarrow> (Inl e, s') | (Inr v, s') \<Rightarrow> f v s'))) \<and>
        length (root_handlers (snd (case m s of (Inl e, s') \<Rightarrow> (Inl e, s') | (Inr v, s') \<Rightarrow> f v s')))
          \<le> length (root_handlers s) + n"
  proof (cases r)
    case (Inl e)
    with mt p show ?thesis by simp
  next
    case (Inr v)
    from f [of v, rule_format, of t] p mt Inr show ?thesis
      by (auto intro: prefix_order.trans)
  qed
qed

lemma grows_keeps: "keeps root_handlers m \<Longrightarrow> grows 0 m"
  by (simp add: grows_def keeps_def)

lemma grows_mono: "grows 0 m \<Longrightarrow> grows n m"
  by (auto simp: grows_def intro: trans_le_add1)

lemma grows_if: "grows n a \<Longrightarrow> grows n b \<Longrightarrow> grows n (if c then a else b)"
  by simp

lemma grows_addHandler: "grows (Suc 0) (addHandler h)"
  by (simp add: grows_def addHandler_def modify_def)

lemma keeps_handlers_banner: "keeps root_handlers (banner H)"
  by (rule keeps_banner) simp_all

lemma grows_add_console: "grows (Suc 0) (add_console H l f d)"
  unfolding add_console_def
  by (intro grows_bindS_pre grows_addHandler grows_keeps keeps_liftE)

lemma adds_bindS_pre: "grows 0 m \<Longrightarrow> (\<And>v. adds n (f v)) \<Longrightarrow> adds n (bindS m f)"
  unfolding grows_def adds_def bindS_def
proof (intro allI)
  fix s
  assume m: "\<forall>s. prefix (root_handlers s) (root_handlers (snd (m s))) \<and>
              length (root_handlers (snd (m s))) \<le> length (root_handlers s) + 0"
    and f: "\<And>v. \<forall>s. prefix (root_handlers s) (root_handlers (snd (f v s))) \<and>
              length (root_handlers (snd (f v s))) \<le> length (root_handlers s) + n \<and>
              (isl (fst (f v s)) \<or> length (root_handlers s) < length (root_handlers (snd (f v s))))"
  let ?b = "case m s of (Inl e, s') \<Rightarrow> (Inl e, s') | (Inr v, s') \<Rightarrow> f v s'"
  obtain r t where mt: "m s = (r, t)" by (cases "m s")
  from m [rule_format, of s] mt have p: "prefix (root_handlers s) (root_handlers t)"
    "length (root_handlers t) \<le> length (root_handlers s)" by simp_all
  then have eq: "length (root_handlers t) = length (root_handlers s)"
    using prefix_length_le by fastforce
  show "prefix (root_handlers s) (root_handlers (snd ?b)) \<and>
        length (root_handlers (snd ?b)) \<le> length (root_handlers s) + n \<and>
        (isl (fst ?b) \<or> length (root_handlers s) < length (root_handlers (snd ?b)))"
  proof (cases r)
    case (Inl e)
    with mt p show ?thesis by simp
  next
    case (Inr v)
    from f [of v, rule_format, of t] p mt Inr eq show ?thesis
      by (auto intro: prefix_order.trans)
  qed
qed

lemma adds_addHandler: "(\<And>v. grows n (f v)) \<Longrightarrow> adds (Suc n) (bindS (addHandler h) f)"
  unfolding grows_def adds_def
proof (intro allI)
  fix s :: state
  assume f: "\<And>v. \<forall>s. prefix (root_handlers s) (root_handlers (snd (f v s))) \<and>
              length (root_handlers (snd (f v s))) \<le> length (root_handlers s) + n"
  let ?t = "s\<lparr>root_handlers := root_handlers s @ [h]\<rparr>"
  have b: "bindS (addHandler h) f s = f () ?t"
    by (simp add: addHandler_def bindS_modify)
  from f [of "()", rule_format, of ?t]
  have p: "prefix (root_handlers s @ [h]) (root_handlers (snd (f () ?t)))"
    "length (root_handlers (snd (f () ?t))) \<le> Suc (length (root_handlers s)) + n"
    by simp_all
  from p(1) have "prefix (root_handlers s) (root_handlers (snd (f () ?t)))"
    using append_prefixD by blast
  moreover from p(1) have "length (root_handlers s) < length (root_handlers (snd (f () ?t)))"
    using prefix_length_le by fastforce
  ultimately show "prefix (root_handlers s) (root_handlers (snd (bindS (addHandler h) f s))) \<and>
      length (root_handlers (snd (bindS (addHandler h) f s))) \<le> length (root_handlers s) + Suc n \<and>
      (isl (fst (bindS (addHandler h) f s)) \<or>
       length (root_handlers s) < length (root_handlers (snd (bindS (addHandler h) f s))))"
    using p(2) by (simp add: b)
qed

lemma adds_case_prod:
  "(\<And>a b c. adds n (f a b c)) \<Longrightarrow> adds n (case x of (a, b, c) \<Rightarrow> f a b c)"
  by (cases x) simp

lemma grows_console_tail:
  "grows (Suc 0)
     (bindS (liftE r) (\<lambda>use_console.
      bindS (if truthy use_console then add_console H level fmt datefmt else retS ()) (\<lambda>_.
      bindS (modify (\<lambda>s. s\<lparr>capture_warnings := True\<rparr>)) (\<lambda>_. banner H))))"
proof (rule grows_bindS_pre)
  show "grows 0 (liftE r)"
    by (intro grows_keeps keeps_liftE)
next
  fix use_console
  show "grows (Suc 0)
     (bindS (if truthy use_console then add_console H level fmt datefmt else retS ()) (\<lambda>_.
      bindS (modify (\<lambda>s. s\<lparr>capture_warnings := True\<rparr>)) (\<lambda>_. banner H)))"
  proof (rule grows_bindS_post)
    show "grows (Suc 0) (if truthy use_console then add_console H level fmt datefmt else retS ())"
    proof (rule grows_if)
      show "grows (Suc 0) (add_console H level fmt datefmt)"
        by (rule grows_add_console)
      show "grows (Suc 0) (retS ())"
        by (simp add: grows_def retS_def)
    qed
  next
    fix v :: unit
    show "grows 0 (bindS (modify (\<lambda>s. s\<lparr>capture_warnings := True\<rparr>)) (\<lambda>_. banner H))"
      by (intro grows_keeps keeps_bindS keeps_modify keeps_handlers_banner) simp
  qed
qed

lemma adds_setup_logging: "adds (Suc (Suc 0)) (setup_logging H)"
  unfolding setup_logging_def
  by (intro adds_addHandler adds_bindS_pre adds_case_prod grows_console_tail grows_keeps
        keeps_reads keeps_liftE keeps_os_makedirs keeps_root_setLevel
        keeps_new_RotatingFileHandler)
     simp_all


lemma adds_raise: "adds n (liftE (Inl e))"
  by (simp add: adds_def liftE_def)

lemma adds_if: "adds n a \<Longrightarrow> adds n b \<Longrightarrow> adds n (if c then a else b)"
  by simp

lemma adds_environment_setter:
  assumes "LOGGING_ENABLED K"
  shows "adds (Suc (Suc 0)) (environment_setter K H env)"
  unfolding environment_setter_def if_P [OF assms]
  by (intro adds_bindS_pre adds_if adds_raise grows_keeps keeps_reads keeps_assign
        adds_setup_logging)
     simp_all

lemma environment_setter_appends:
  assumes "LOGGING_ENABLED K" and "environment_setter K H env s = (r, s')"
  shows "prefix (root_handlers s) (root_handlers s')"
    and "length (root_handlers s') \<le> length (root_handlers s) + 2"
    and "r = Inr () \<Longrightarrow> length (root_handlers s) < length (root_handlers s')"
  using adds_environment_setter [OF assms(1), of H env] assms(2)
  by (auto simp: adds_def dest!: spec [of _ s])

lemma activate_all_appends:
  assumes "LOGGING_ENABLED K" and "activate_all K H envs s = (Inr (), s')"
  shows "prefix (root_handlers s) (root_handlers s') \<and>
         length (root_handlers s) + length envs \<le> length (root_handlers s') \<and>
         length (root_handlers s') \<le> length (root_handlers s) + 2 * length envs"
  using assms(2)
proof (induction envs arbitrary: s)
  case Nil
  then show ?case by (simp add: retS_def)
next
  case (Cons env envs)
  obtain r t where e: "environment_setter K H env s = (r, t)"
    by (cases "environment_setter K H env s")
  from Cons.prems e have r: "r = Inr ()" and rest: "activate_all K H envs t = (Inr (), s')"
    by (auto simp: bindS_def split: sum.splits)
  note a = environment_setter_appends [OF assms(1) e]
  from Cons.IH [OF rest] a(1) a(2) a(3) [OF r] show ?case
    by (auto intro: prefix_order.trans)
qed

text \<open>
  Claim C5 fails as stated: assigning the environment \<open>prod\<close> twice leaves two rotating
  file handlers for the same file and two console handlers on the root logger. The
  second setup does not replace the handlers of the first.
\<close>

theorem handlers_accumulate_at_example:
  "root_handlers ex_active = [] \<and>
   fst (environment_setter (ex_class True) ex_host ''prod'' ex_active) = Inr () \<and>
   root_handlers (snd (environment_setter (ex_class True) ex_host ''prod'' ex_active)) =
     [RotatingFileHandler ''/home/u/.cache/vantage6/log/node/prod.log'' 2097152 (PInt 3) 20
        (Formatter (PStr ''%(message)s'') (PStr [])),
      ColorStreamHandler 20 (Formatter (PStr ''%(message)s'') (PStr []))] \<and>
   fst (environment_setter (ex_class True) ex_host ''prod''
     (snd (environment_setter (ex_class True) ex_host ''prod'' ex_active))) = Inr () \<and>
   root_handlers (snd (environment_setter (ex_class True) ex_host ''prod''
     (snd (environment_setter (ex_class True) ex_host ''prod'' ex_active)))) =
     [RotatingFileHandler ''/home/u/.cache/vantage6/log/node/prod.log'' 2097152 (PInt 3) 20
        (Formatter (PStr ''%(message)s'') (PStr [])),
      ColorStreamHandler 20 (Formatter (PStr ''%(message)s'') (PStr [])),
      RotatingFileHandler ''/home/u/.cache/vantage6/log/node/prod.log'' 2097152 (PInt 3) 20
        (Formatter (PStr ''%(message)s'') (PStr [])),
      ColorStreamHandler 20 (Formatter (PStr ''%(message)s'') (PStr []))]"
  by code_simp

lemma environment_setter_returns:
  assumes "environment_setter K H env s = (Inr (), s')"
  shows "\<exists>cm. self_config_manager (self s) = Some cm \<and> cm_truthy cm \<and>
           env \<in> set (cm_available_environments cm) \<and>
           (if LOGGING_ENABLED K then setup_logging H else retS ())
             (s\<lparr>self := (self s)\<lparr>self_environment := Some env,
                                 self_config := Some (cm_get cm env)\<rparr>\<rparr>) = (Inr (), s')"
proof (cases "self_config_manager (self s)")
  case None
  with assms show ?thesis
    by (simp add: environment_setter_unset)
next
  case (Some cm)
  show ?thesis
  proof (cases "cm_truthy cm \<and> env \<in> set (cm_available_environments cm)")
    case True
    with Some assms show ?thesis
      by (simp add: environment_setter_found)
  next
    case False
    with Some assms show ?thesis
      by (cases "cm_truthy cm")
        (simp_all add: environment_setter_falsy environment_setter_not_found)
  qed
qed

text \<open>
  Claim C1, amended. On a context whose configuration manager is loaded, assigning the
  name of an available environment stores the name and the settings
  \<^verbatim>\<open>config_manager.get(name)\<close>, whatever settings were stored before, and they are the
  stored ones in the final state in every outcome. With \<^verbatim>\<open>LOGGING_ENABLED\<close> unset the
  assignment returns and changes nothing else. With \<^verbatim>\<open>LOGGING_ENABLED\<close> set the
  assignment is the run of \<^verbatim>\<open>setup_logging\<close> on that state, and when it returns the
  setup has been performed: the \<^verbatim>\<open>logging\<close> section of the new settings gave the
  level, the format, the size and the backup count, the directory of the log file was
  created, the root logger has that level and, after its earlier handlers, a rotating
  file handler for the log file and then a console handler when \<^verbatim>\<open>use_console\<close> is
  true, warnings are captured, the banner was logged and \<^verbatim>\<open>self.log\<close> is the logger.
\<close>

theorem environment_setter_activates:
  assumes "self_config_manager (self s) = Some cm" and "cm_truthy cm"
    and "env \<in> set (cm_available_environments cm)"
  shows "self_environment (self (snd (environment_setter K H env s))) = Some env \<and>
         self_config (self (snd (environment_setter K H env s))) = Some (cm_get cm env) \<and>
         (\<not> LOGGING_ENABLED K \<longrightarrow>
            environment_setter K H env s =
              (Inr (), s\<lparr>self := (self s)\<lparr>self_environment := Some env,
                                        self_config := Some (cm_get cm env)\<rparr>\<rparr>)) \<and>
         (LOGGING_ENABLED K \<longrightarrow>
            environment_setter K H env s =
              setup_logging H (s\<lparr>self := (self s)\<lparr>self_environment := Some env,
                                        self_config := Some (cm_get cm env)\<rparr>\<rparr>)) \<and>
         (LOGGING_ENABLED K \<longrightarrow> fst (environment_setter K H env s) = Inr () \<longrightarrow>
            (\<exists>lg l nm level lv fmt datefmt lf k n bc uc cf ex1 ex2.
               subscript (cm_get cm env) ''logging'' = Inr lg \<and>
               subscript lg ''level'' = Inr l \<and> upper l = Inr nm \<and>
               logging_getattr H nm = Some level \<and> checkLevel level = Inr lv \<and>
               subscript lg ''format'' = Inr fmt \<and>
               dict_get_default lg ''datefmt'' (PStr []) = Inr datefmt \<and>
               subscript lg ''max_size'' = Inr k \<and> mul_1024 k = Inr (PInt n) \<and>
               subscript lg ''backup_count'' = Inr bc \<and>
               subscript lg ''use_console'' = Inr uc \<and>
               log_file H ((self s)\<lparr>self_environment := Some env,
                                     self_config := Some (cm_get cm env)\<rparr>) = Inr lf \<and>
               self_config_file (self s) = Some cf \<and>
               makedirs H (existing s) (dirname H lf) = Inr ex1 \<and>
               open_append H ex1 lf = Inr ex2 \<and>
               snd (environment_setter K H env s) =
                 s\<lparr>existing := ex2, root_level := lv,
                    root_handlers := root_handlers s @
                      RotatingFileHandler lf n bc lv (Formatter fmt datefmt) #
                      (if truthy uc then [ColorStreamHandler lv (Formatter fmt datefmt)] else []),
                    capture_warnings := True,
                    info_records := info_records s @
                      [replicate 80 (CHR ''#''), ''#'' @ center78 (APPNAME H) @ ''#'',
                       replicate 80 (CHR ''#''),
                       ''Started application '' @ APPNAME H @ '' with environment '' @ env,
                       ''Current working directory is '' @ [CHR 0x27] @ getcwd H @ [CHR 0x27],
                       ''Succesfully loaded configuration from '' @ [CHR 0x27] @ cf @ [CHR 0x27],
                       ''Logging to '' @ [CHR 0x27] @ lf @ [CHR 0x27]],
                    self := (self s)\<lparr>self_environment := Some env,
                                      self_config := Some (cm_get cm env),
                                      self_log := Some (Logger ''context'')\<rparr>\<rparr>))"
proof -
  let ?s1 = "s\<lparr>self := (self s)\<lparr>self_environment := Some env, self_config := Some (cm_get cm env)\<rparr>\<rparr>"
  let ?R = "environment_setter K H env s"
  have u: "?R = (if LOGGING_ENABLED K then setup_logging H else retS ()) ?s1"
    using assms by (rule environment_setter_found)
  have k: "keeps (\<lambda>s. (self_environment (self s), self_config (self s)))
             (if LOGGING_ENABLED K then setup_logging H else retS ())"
    by (intro keeps_if keeps_setup_logging keeps_retS) simp_all
  from k have "(self_environment (self (snd ((if LOGGING_ENABLED K then setup_logging H else retS ()) ?s1))),
      self_config (self (snd ((if LOGGING_ENABLED K then setup_logging H else retS ()) ?s1)))) =
      (self_environment (self ?s1), self_config (self ?s1))"
    unfolding keeps_def by blast
  with u have stored: "self_environment (self (snd ?R)) = Some env"
    "self_config (self (snd ?R)) = Some (cm_get cm env)"
    by simp_all
  have off: "?R = (Inr (), ?s1)" if "\<not> LOGGING_ENABLED K"
    using u that by (simp add: retS_def)
  have on: "?R = setup_logging H ?s1" if "LOGGING_ENABLED K"
    using u that by simp
  have performed: "\<exists>lg l nm level lv fmt datefmt lf k n bc uc cf ex1 ex2.
               subscript (cm_get cm env) ''logging'' = Inr lg \<and>
               subscript lg ''level'' = Inr l \<and> upper l = Inr nm \<and>
               logging_getattr H nm = Some level \<and> checkLevel level = Inr lv \<and>
               subscript lg ''format'' = Inr fmt \<and>
               dict_get_default lg ''datefmt'' (PStr []) = Inr datefmt \<and>
               subscript lg ''max_size'' = Inr k \<and> mul_1024 k = Inr (PInt n) \<and>
               subscript lg ''backup_count'' = Inr bc \<and>
               subscript lg ''use_console'' = Inr uc \<and>
               log_file H ((self s)\<lparr>self_environment := Some env,
                                     self_config := Some (cm_get cm env)\<rparr>) = Inr lf \<and>
               self_config_file (self s) = Some cf \<and>
               makedirs H (existing s) (dirname H lf) = Inr ex1 \<and>
               open_append H ex1 lf = Inr ex2 \<and>
               snd ?R =
                 s\<lparr>existing := ex2, root_level := lv,
                    root_handlers := root_handlers s @
                      RotatingFileHandler lf n bc lv (Formatter fmt datefmt) #
                      (if truthy uc then [ColorStreamHandler lv (Formatter fmt datefmt)] else []),
                    capture_warnings := True,
                    info_records := info_records s @
                      [replicate 80 (CHR ''#''), ''#'' @ center78 (APPNAME H) @ ''#'',
                       replicate 80 (CHR ''#''),
                       ''Started application '' @ APPNAME H @ '' with environment '' @ env,
                       ''Current working directory is '' @ [CHR 0x27] @ getcwd H @ [CHR 0x27],
                       ''Succesfully loaded configuration from '' @ [CHR 0x27] @ cf @ [CHR 0x27],
                       ''Logging to '' @ [CHR 0x27] @ lf @ [CHR 0x27]],
                    self := (self s)\<lparr>self_environment := Some env,
                                      self_config := Some (cm_get cm env),
                                      self_log := Some (Logger ''context'')\<rparr>\<rparr>"
    if l: "LOGGING_ENABLED K" and r: "fst ?R = Inr ()"
  proof -
    from on [OF l] r have "setup_logging H ?s1 = (Inr (), snd ?R)"
      by (simp add: prod_eq_iff)
    from setup_logging_returns [OF this]
    obtain cfg lg l nm level lv fmt datefmt lf k n bc uc env' cf ex1 ex2 where
      c: "self_config (self ?s1) = Some cfg" and
      f: "subscript cfg ''logging'' = Inr lg"
         "subscript lg ''level'' = Inr l" "upper l = Inr nm"
         "logging_getattr H nm = Some level" "checkLevel level = Inr lv"
         "subscript lg ''format'' = Inr fmt"
         "dict_get_default lg ''datefmt'' (PStr []) = Inr datefmt"
         "subscript lg ''max_size'' = Inr k" "mul_1024 k = Inr (PInt n)"
         "subscript lg ''backup_count'' = Inr bc"
         "subscript lg ''use_console'' = Inr uc" and
      lf: "log_file H (self ?s1) = Inr lf" and
      e: "self_environment (self ?s1) = Some env'" and
      cf: "self_config_file (self ?s1) = Some cf" and
      fs: "makedirs H (existing ?s1) (dirname H lf) = Inr ex1" "open_append H ex1 lf = Inr ex2" and
      st: "snd ?R = ?s1\<lparr>existing := ex2, root_level := lv,
            root_handlers := root_handlers ?s1 @
              RotatingFileHandler lf n bc lv (Formatter fmt datefmt) #
              (if truthy uc then [ColorStreamHandler lv (Formatter fmt datefmt)] else []),
            capture_warnings := True,
            info_records := info_records ?s1 @
                [replicate 80 (CHR ''#''), ''#'' @ center78 (APPNAME H) @ ''#'',
                 replicate 80 (CHR ''#''),
                 ''Started application '' @ APPNAME H @ '' with environment '' @ env',
                 ''Current working directory is '' @ [CHR 0x27] @ getcwd H @ [CHR 0x27],
                 ''Succesfully loaded configuration from '' @ [CHR 0x27] @ cf @ [CHR 0x27],
                 ''Logging to '' @ [CHR 0x27] @ lf @ [CHR 0x27]],
            self := (self ?s1)\<lparr>self_log := Some (Logger ''context'')\<rparr>\<rparr>"
      by blast
    from c have cfg: "cfg = cm_get cm env" by simp
    from e have env': "env' = env" by simp
    note f' = f [unfolded cfg]
    from lf have lf': "log_file H ((self s)\<lparr>self_environment := Some env,
                                     self_config := Some (cm_get cm env)\<rparr>) = Inr lf"
      by simp
    from cf have cf': "self_config_file (self s) = Some cf" by simp
    from fs have fs': "makedirs H (existing s) (dirname H lf) = Inr ex1" by simp
    from st have st': "snd ?R =
                 s\<lparr>existing := ex2, root_level := lv,
                    root_handlers := root_handlers s @
                      RotatingFileHandler lf n bc lv (Formatter fmt datefmt) #
                      (if truthy uc then [ColorStreamHandler lv (Formatter fmt datefmt)] else []),
                    capture_warnings := True,
                    info_records := info_records s @
                      [replicate 80 (CHR ''#''), ''#'' @ center78 (APPNAME H) @ ''#'',
                       replicate 80 (CHR ''#''),
                       ''Started application '' @ APPNAME H @ '' with environment '' @ env,
                       ''Current working directory is '' @ [CHR 0x27] @ getcwd H @ [CHR 0x27],
                       ''Succesfully loaded configuration from '' @ [CHR 0x27] @ cf @ [CHR 0x27],
                       ''Logging to '' @ [CHR 0x27] @ lf @ [CHR 0x27]],
                    self := (self s)\<lparr>self_environment := Some env,
                                      self_config := Some (cm_get cm env),
                                      self_log := Some (Logger ''context'')\<rparr>\<rparr>"
      unfolding env' by simp
    from f' lf' cf' fs' fs(2) st' show ?thesis
      by blast
  qed
  show ?thesis
    using stored off on performed by blast
qed


lemma ex_prod_lookups:
  "cm_get ex_manager ''prod'' = ex_prod"
  "subscript ex_prod ''logging'' = Inr lg \<longleftrightarrow>
     lg = PDict [(''level'', PStr ''info''), (''format'', PStr ''%(message)s''),
              (''max_size'', PInt 2048), (''backup_count'', PInt 3),
              (''use_console'', PBool True), (''file'', PStr ''prod.log'')]"
  "upper (PStr ''info'') = Inr ''INFO''"
  "logging_getattr ex_host ''INFO'' = Some (PInt 20)"
  "log_file ex_host ((self ex_active)\<lparr>self_environment := Some ''prod'',
      self_config := Some ex_prod\<rparr>) = Inr ''/home/u/.cache/vantage6/log/node/prod.log''"
proof -
  show "cm_get ex_manager ''prod'' = ex_prod"
    by (simp add: ex_manager_def)
  show "subscript ex_prod ''logging'' = Inr lg \<longleftrightarrow>
     lg = PDict [(''level'', PStr ''info''), (''format'', PStr ''%(message)s''),
              (''max_size'', PInt 2048), (''backup_count'', PInt 3),
              (''use_console'', PBool True), (''file'', PStr ''prod.log'')]"
    by (auto simp: ex_prod_def)
  show "upper (PStr ''info'') = Inr ''INFO''"
    by code_simp
  show "logging_getattr ex_host ''INFO'' = Some (PInt 20)"
    by code_simp
  show "log_file ex_host ((self ex_active)\<lparr>self_environment := Some ''prod'',
      self_config := Some ex_prod\<rparr>) = Inr ''/home/u/.cache/vantage6/log/node/prod.log''"
    by code_simp
qed

lemma ex_prod_values:
  assumes f: "subscript ex_prod ''logging'' = Inr lg"
       "subscript lg ''level'' = Inr l'" "upper l' = Inr nm"
       "logging_getattr ex_host nm = Some level" "checkLevel level = Inr lv"
       "subscript lg ''format'' = Inr fmt"
       "dict_get_default lg ''datefmt'' (PStr []) = Inr datefmt"
       "subscript lg ''max_size'' = Inr k" "mul_1024 k = Inr (PInt n)"
       "subscript lg ''backup_count'' = Inr bc"
       "subscript lg ''use_console'' = Inr uc"
    and lf: "log_file ex_host ((self ex_active)\<lparr>self_environment := Some ''prod'',
                                     self_config := Some ex_prod\<rparr>) = Inr lf"
  shows "lv = 20" and "fmt = PStr ''%(message)s''" and "datefmt = PStr []"
    and "n = 2097152" and "bc = PInt 3" and "uc = PBool True"
    and "lf = ''/home/u/.cache/vantage6/log/node/prod.log''"
proof -
  from f(1) have lg: "lg = PDict [(''level'', PStr ''info''), (''format'', PStr ''%(message)s''),
              (''max_size'', PInt 2048), (''backup_count'', PInt 3),
              (''use_console'', PBool True), (''file'', PStr ''prod.log'')]"
    by (simp add: ex_prod_lookups(2))
  from f(2) have "l' = PStr ''info''" by (auto simp: lg)
  with f(3) have "(Inr ''INFO'' :: exn + string) = Inr nm"
    by (simp only: ex_prod_lookups(3))
  then have "nm = ''INFO''" by simp
  with f(4) have "level = PInt 20" by (simp add: ex_prod_lookups(4))
  with f(5) have lv: "lv = 20" by simp
  from f(6,7) have fm: "fmt = PStr ''%(message)s''" "datefmt = PStr []" by (auto simp: lg)
  from f(8) have "k = PInt 2048" by (auto simp: lg)
  with f(9) have n: "n = 2097152" by simp
  from f(10,11) have bu: "bc = PInt 3" "uc = PBool True" by (auto simp: lg)
  from lf have lfv: "lf = ''/home/u/.cache/vantage6/log/node/prod.log''"
    by (simp add: ex_prod_lookups(5))
  from lv fm n bu lfv
  show "lv = 20" and "fmt = PStr ''%(message)s''" and "datefmt = PStr []"
    and "n = 2097152" and "bc = PInt 3" and "uc = PBool True"
    and "lf = ''/home/u/.cache/vantage6/log/node/prod.log''"
    by simp_all
qed

text \<open>
  The example context has \<open>dev\<close> active; assigning \<open>prod\<close> returns, leaves the settings
  of \<open>prod\<close>, the level 20, and the two handlers that \<open>prod\<close> asks for.
\<close>

theorem environment_setter_activates_witness:
  "self_config_manager (self ex_active) = Some ex_manager \<and> cm_truthy ex_manager \<and>
   ''prod'' \<in> set (cm_available_environments ex_manager) \<and>
   LOGGING_ENABLED (ex_class True) \<and>
   self_config (self ex_active) = Some ex_dev \<and>
   fst (environment_setter (ex_class True) ex_host ''prod'' ex_active) = Inr () \<and>
   self_environment (self (snd (environment_setter (ex_class True) ex_host ''prod'' ex_active))) =
     Some ''prod'' \<and>
   self_config (self (snd (environment_setter (ex_class True) ex_host ''prod'' ex_active))) =
     Some ex_prod \<and>
   root_level (snd (environment_setter (ex_class True) ex_host ''prod'' ex_active)) = 20 \<and>
   root_handlers (snd (environment_setter (ex_class True) ex_host ''prod'' ex_active)) =
     [RotatingFileHandler ''/home/u/.cache/vantage6/log/node/prod.log'' 2097152 (PInt 3) 20
        (Formatter (PStr ''%(message)s'') (PStr [])),
      ColorStreamHandler 20 (Formatter (PStr ''%(message)s'') (PStr []))] \<and>
   capture_warnings (snd (environment_setter (ex_class True) ex_host ''prod'' ex_active)) \<and>
   self_log (self (snd (environment_setter (ex_class True) ex_host ''prod'' ex_active))) =
     Some (Logger ''context'')"
proof -
  let ?R = "environment_setter (ex_class True) ex_host ''prod'' ex_active"
  have a: "self_config_manager (self ex_active) = Some ex_manager" "cm_truthy ex_manager"
    "''prod'' \<in> set (cm_available_environments ex_manager)"
    by (simp_all add: ex_active_def ex_manager_def)
  have l: "LOGGING_ENABLED (ex_class True)"
    by (simp add: ex_class_def)
  have c: "self_config (self ex_active) = Some ex_dev"
    by (simp add: ex_active_def)
  have r: "fst ?R = Inr ()"
    by code_simp
  note t = environment_setter_activates [OF a, of "ex_class True" ex_host,
      unfolded ex_prod_lookups(1)]
  from t have stored: "self_environment (self (snd ?R)) = Some ''prod''"
    "self_config (self (snd ?R)) = Some ex_prod"
    by blast+
  from t l r obtain lg l' nm level lv fmt datefmt lf k n bc uc cf ex1 ex2 where
    f: "subscript ex_prod ''logging'' = Inr lg"
       "subscript lg ''level'' = Inr l'" "upper l' = Inr nm"
       "logging_getattr ex_host nm = Some level" "checkLevel level = Inr lv"
       "subscript lg ''format'' = Inr fmt"
       "dict_get_default lg ''datefmt'' (PStr []) = Inr datefmt"
       "subscript lg ''max_size'' = Inr k" "mul_1024 k = Inr (PInt n)"
       "subscript lg ''backup_count'' = Inr bc"
       "subscript lg ''use_console'' = Inr uc" and
    lf: "log_file ex_host ((self ex_active)\<lparr>self_environment := Some ''prod'',
                                     self_config := Some ex_prod\<rparr>) = Inr lf" and
    st: "snd ?R =
           ex_active\<lparr>existing := ex2, root_level := lv,
              root_handlers := root_handlers ex_active @
                RotatingFileHandler lf n bc lv (Formatter fmt datefmt) #
                (if truthy uc then [ColorStreamHandler lv (Formatter fmt datefmt)] else []),
              capture_warnings := True,
              info_records := info_records ex_active @
                [replicate 80 (CHR ''#''), ''#'' @ center78 (APPNAME ex_host) @ ''#'',
                 replicate 80 (CHR ''#''),
                 ''Started application '' @ APPNAME ex_host @ '' with environment '' @ ''prod'',
                 ''Current working directory is '' @ [CHR 0x27] @ getcwd ex_host @ [CHR 0x27],
                 ''Succesfully loaded configuration from '' @ [CHR 0x27] @ cf @ [CHR 0x27],
                 ''Logging to '' @ [CHR 0x27] @ lf @ [CHR 0x27]],
              self := (self ex_active)\<lparr>self_environment := Some ''prod'',
                                self_config := Some ex_prod,
                                self_log := Some (Logger ''context'')\<rparr>\<rparr>"
    by blast
  note v = ex_prod_values [OF f lf]
  have h0: "root_handlers ex_active = []"
    by (simp add: ex_active_def)
  from st have eff: "root_level (snd ?R) = 20"
    "root_handlers (snd ?R) =
       [RotatingFileHandler ''/home/u/.cache/vantage6/log/node/prod.log'' 2097152 (PInt 3) 20
          (Formatter (PStr ''%(message)s'') (PStr [])),
        ColorStreamHandler 20 (Formatter (PStr ''%(message)s'') (PStr []))]"
    "capture_warnings (snd ?R)"
    "self_log (self (snd ?R)) = Some (Logger ''context'')"
    by (simp_all add: v h0)
  from a l c r stored eff show ?thesis
    by blast
qed

text \<open>
  Claim C1 fails as stated: the manager is loaded and \<open>test\<close> is available, but its
  settings have no \<^verbatim>\<open>logging\<close> section. With logging enabled the assignment raises
  \<^verbatim>\<open>KeyError\<close> and no logging setup has been performed: level, handlers, warnings
  redirection, banner and \<^verbatim>\<open>self.log\<close> are as before.
\<close>

theorem environment_setter_raises_at_example:
  "self_config_manager (self ex_bare) = Some ex_bare_manager \<and> cm_truthy ex_bare_manager \<and>
   ''test'' \<in> set (cm_available_environments ex_bare_manager) \<and>
   LOGGING_ENABLED (ex_class True) \<and>
   fst (environment_setter (ex_class True) ex_host ''test'' ex_bare) = Inl (KeyError ''logging'') \<and>
   root_level (snd (environment_setter (ex_class True) ex_host ''test'' ex_bare)) =
     root_level ex_bare \<and>
   root_handlers (snd (environment_setter (ex_class True) ex_host ''test'' ex_bare)) = [] \<and>
   \<not> capture_warnings (snd (environment_setter (ex_class True) ex_host ''test'' ex_bare)) \<and>
   info_records (snd (environment_setter (ex_class True) ex_host ''test'' ex_bare)) = [] \<and>
   self_log (self (snd (environment_setter (ex_class True) ex_host ''test'' ex_bare))) =
     Some NoLogger"
proof -
  have a: "self_config_manager (self ex_bare) = Some ex_bare_manager" "cm_truthy ex_bare_manager"
    "''test'' \<in> set (cm_available_environments ex_bare_manager)"
    "LOGGING_ENABLED (ex_class True)"
    by (simp_all add: ex_bare_def ex_bare_manager_def ex_class_def)
  have b: "fst (environment_setter (ex_class True) ex_host ''test'' ex_bare) = Inl (KeyError ''logging'')"
    "root_level (snd (environment_setter (ex_class True) ex_host ''test'' ex_bare)) =
       root_level ex_bare"
    "root_handlers (snd (environment_setter (ex_class True) ex_host ''test'' ex_bare)) = []"
    "\<not> capture_warnings (snd (environment_setter (ex_class True) ex_host ''test'' ex_bare))"
    "info_records (snd (environment_setter (ex_class True) ex_host ''test'' ex_bare)) = []"
    "self_log (self (snd (environment_setter (ex_class True) ex_host ''test'' ex_bare))) =
       Some NoLogger"
    by code_simp+
  from a b show ?thesis
    by blast
qed

text \<open>
  Claim C5, amended. Logging setup only appends to the handlers of the root logger.
  With logging enabled, an assignment of \<^verbatim>\<open>environment\<close> that returns leaves every
  earlier handler attached, in place, and appends one rotating file handler for the
  log file, with the size and backup count of the \<^verbatim>\<open>logging\<close> section and its level
  and format, followed by one console handler of the same level and format exactly when
  \<^verbatim>\<open>use_console\<close> is true. So a sequence of \<open>n\<close> assignments that returns keeps all
  earlier handlers and adds between \<open>n\<close> and \<open>2n\<close>.
\<close>

theorem activations_append_handlers:
  assumes "LOGGING_ENABLED K"
  shows "(environment_setter K H env s = (Inr (), s') \<longrightarrow>
           (\<exists>cm lg l nm level lv fmt datefmt lf k n bc uc.
              self_config_manager (self s) = Some cm \<and>
              subscript (cm_get cm env) ''logging'' = Inr lg \<and>
              subscript lg ''level'' = Inr l \<and> upper l = Inr nm \<and>
              logging_getattr H nm = Some level \<and> checkLevel level = Inr lv \<and>
              subscript lg ''format'' = Inr fmt \<and>
              dict_get_default lg ''datefmt'' (PStr []) = Inr datefmt \<and>
              subscript lg ''max_size'' = Inr k \<and> mul_1024 k = Inr (PInt n) \<and>
              subscript lg ''backup_count'' = Inr bc \<and>
              subscript lg ''use_console'' = Inr uc \<and>
              log_file H ((self s)\<lparr>self_environment := Some env,
                                    self_config := Some (cm_get cm env)\<rparr>) = Inr lf \<and>
              root_handlers s' = root_handlers s @
                RotatingFileHandler lf n bc lv (Formatter fmt datefmt) #
                (if truthy uc then [ColorStreamHandler lv (Formatter fmt datefmt)] else []))) \<and>
         (activate_all K H envs s = (Inr (), s'') \<longrightarrow>
            prefix (root_handlers s) (root_handlers s'') \<and>
            length (root_handlers s) + length envs \<le> length (root_handlers s'') \<and>
            length (root_handlers s'') \<le> length (root_handlers s) + 2 * length envs)"
proof (intro conjI impI)
  assume r: "environment_setter K H env s = (Inr (), s')"
  from environment_setter_returns [OF r] assms obtain cm where
    cm: "self_config_manager (self s) = Some cm" and
    su: "setup_logging H (s\<lparr>self := (self s)\<lparr>self_environment := Some env,
                                 self_config := Some (cm_get cm env)\<rparr>\<rparr>) = (Inr (), s')"
    by auto
  let ?s1 = "s\<lparr>self := (self s)\<lparr>self_environment := Some env, self_config := Some (cm_get cm env)\<rparr>\<rparr>"
  from setup_logging_returns [OF su]
  obtain cfg lg l nm level lv fmt datefmt lf k n bc uc where
    c: "self_config (self ?s1) = Some cfg" and
    f: "subscript cfg ''logging'' = Inr lg"
       "subscript lg ''level'' = Inr l" "upper l = Inr nm"
       "logging_getattr H nm = Some level" "checkLevel level = Inr lv"
       "subscript lg ''format'' = Inr fmt"
       "dict_get_default lg ''datefmt'' (PStr []) = Inr datefmt"
       "subscript lg ''max_size'' = Inr k" "mul_1024 k = Inr (PInt n)"
       "subscript lg ''backup_count'' = Inr bc"
       "subscript lg ''use_console'' = Inr uc" and
    lf: "log_file H (self ?s1) = Inr lf" and
    h: "root_handlers s' = root_handlers ?s1 @
          RotatingFileHandler lf n bc lv (Formatter fmt datefmt) #
          (if truthy uc then [ColorStreamHandler lv (Formatter fmt datefmt)] else [])"
    by (elim exE conjE) simp
  from c have cfg: "cfg = cm_get cm env" by simp
  note f' = f [unfolded cfg]
  from lf have lf': "log_file H ((self s)\<lparr>self_environment := Some env,
                                    self_config := Some (cm_get cm env)\<rparr>) = Inr lf"
    by simp
  from h have h': "root_handlers s' = root_handlers s @
          RotatingFileHandler lf n bc lv (Formatter fmt datefmt) #
          (if truthy uc then [ColorStreamHandler lv (Formatter fmt datefmt)] else [])"
    by simp
  from cm f' lf' h'
  show "\<exists>cm lg l nm level lv fmt datefmt lf k n bc uc.
              self_config_manager (self s) = Some cm \<and>
              subscript (cm_get cm env) ''logging'' = Inr lg \<and>
              subscript lg ''level'' = Inr l \<and> upper l = Inr nm \<and>
              logging_getattr H nm = Some level \<and> checkLevel level = Inr lv \<and>
              subscript lg ''format'' = Inr fmt \<and>
              dict_get_default lg ''datefmt'' (PStr []) = Inr datefmt \<and>
              subscript lg ''max_size'' = Inr k \<and> mul_1024 k = Inr (PInt n) \<and>
              subscript lg ''backup_count'' = Inr bc \<and>
              subscript lg ''use_console'' = Inr uc \<and>
              log_file H ((self s)\<lparr>self_environment := Some env,
                                    self_config := Some (cm_get cm env)\<rparr>) = Inr lf \<and>
              root_handlers s' = root_handlers s @
                RotatingFileHandler lf n bc lv (Formatter fmt datefmt) #
                (if truthy uc then [ColorStreamHandler lv (Formatter fmt datefmt)] else [])"
    by blast
next
  assume "activate_all K H envs s = (Inr (), s'')"
  from activate_all_appends [OF assms this]
  show "prefix (root_handlers s) (root_handlers s'')"
    and "length (root_handlers s) + length envs \<le> length (root_handlers s'')"
    and "length (root_handlers s'') \<le> length (root_handlers s) + 2 * length envs"
    by simp_all
qed

text \<open>
  On the example, assigning \<open>prod\<close> appends its rotating file handler and its console
  handler, and the three assignments \<open>prod\<close>, \<open>dev\<close>, \<open>prod\<close> leave five handlers on a
  root logger that had none.
\<close>

theorem activations_append_handlers_witness:
  "LOGGING_ENABLED (ex_class True) \<and> root_handlers ex_active = [] \<and>
   fst (environment_setter (ex_class True) ex_host ''prod'' ex_active) = Inr () \<and>
   root_handlers (snd (environment_setter (ex_class True) ex_host ''prod'' ex_active)) =
     [RotatingFileHandler ''/home/u/.cache/vantage6/log/node/prod.log'' 2097152 (PInt 3) 20
        (Formatter (PStr ''%(message)s'') (PStr [])),
      ColorStreamHandler 20 (Formatter (PStr ''%(message)s'') (PStr []))] \<and>
   fst (activate_all (ex_class True) ex_host [''prod'', ''dev'', ''prod''] ex_active) = Inr () \<and>
   length (root_handlers (snd (activate_all (ex_class True) ex_host [''prod'', ''dev'', ''prod''] ex_active)))
     = 5 \<and>
   3 \<le> length (root_handlers (snd (activate_all (ex_class True) ex_host [''prod'', ''dev'', ''prod'']
     ex_active)))"
proof -
  let ?R = "environment_setter (ex_class True) ex_host ''prod'' ex_active"
  let ?A = "activate_all (ex_class True) ex_host [''prod'', ''dev'', ''prod''] ex_active"
  have l: "LOGGING_ENABLED (ex_class True)"
    by (simp add: ex_class_def)
  have h0: "root_handlers ex_active = []"
    by (simp add: ex_active_def)
  have cm0: "self_config_manager (self ex_active) = Some ex_manager"
    by (simp add: ex_active_def)
  have r: "fst ?R = Inr ()"
    by code_simp
  have f: "fst ?A = Inr ()"
    by code_simp
  have n: "length (root_handlers (snd ?A)) = 5"
    by code_simp
  have run1: "?R = (Inr (), snd ?R)"
    using r by (simp add: prod_eq_iff)
  have run2: "?A = (Inr (), snd ?A)"
    using f by (simp add: prod_eq_iff)
  note t = activations_append_handlers [OF l, of ex_host "''prod''" ex_active "snd ?R"
      "[''prod'', ''dev'', ''prod'']" "snd ?A"]
  from t run1 cm0 obtain lg l' nm level lv fmt datefmt lf k n' bc uc where
    v: "subscript (cm_get ex_manager ''prod'') ''logging'' = Inr lg"
       "subscript lg ''level'' = Inr l'" "upper l' = Inr nm"
       "logging_getattr ex_host nm = Some level" "checkLevel level = Inr lv"
       "subscript lg ''format'' = Inr fmt"
       "dict_get_default lg ''datefmt'' (PStr []) = Inr datefmt"
       "subscript lg ''max_size'' = Inr k" "mul_1024 k = Inr (PInt n')"
       "subscript lg ''backup_count'' = Inr bc"
       "subscript lg ''use_console'' = Inr uc" and
    lf: "log_file ex_host ((self ex_active)\<lparr>self_environment := Some ''prod'',
           self_config := Some (cm_get ex_manager ''prod'')\<rparr>) = Inr lf" and
    h: "root_handlers (snd ?R) = root_handlers ex_active @
          RotatingFileHandler lf n' bc lv (Formatter fmt datefmt) #
          (if truthy uc then [ColorStreamHandler lv (Formatter fmt datefmt)] else [])"
    by auto
  note w = ex_prod_values [OF v [unfolded ex_prod_lookups(1)] lf [unfolded ex_prod_lookups(1)]]
  from h have hs: "root_handlers (snd ?R) =
     [RotatingFileHandler ''/home/u/.cache/vantage6/log/node/prod.log'' 2097152 (PInt 3) 20
        (Formatter (PStr ''%(message)s'') (PStr [])),
      ColorStreamHandler 20 (Formatter (PStr ''%(message)s'') (PStr []))]"
    by (simp add: w h0)
  from t run2 have "length (root_handlers ex_active) + length [''prod'', ''dev'', ''prod''] \<le>
      length (root_handlers (snd ?A))"
    by blast
  then have three: "3 \<le> length (root_handlers (snd ?A))"
    by simp
  from l h0 r hs f n three show ?thesis
    by blast
qed

section \<open>The alternate constructor\<close>

lemma from_external_unfold:
  "from_external_config_file K H p t env sf s =
     bindS (config_file_setter K H p) (\<lambda>_.
     bindS (environment_setter K H env) (\<lambda>_.
     reads (\<lambda>c. Inr c))) (external_folders H p t sf s)"
  by (simp add: from_external_config_file_def external_folders_def bindS_simps set_folders_def
        instance_folders_def Let_def new_object_def)

lemma setup_logging_log_file_raises:
  assumes "log_file H (self s) = Inl e"
  shows "isl (fst (setup_logging H s))"
  using assms
  by (simp add: setup_logging_def bindS_simps split: sum.splits)

lemma reaches_log_file_cases:
  assumes "reaches_log_file H cfg"
  obtains lg l nm lv f d where "subscript cfg ''logging'' = Inr lg"
    "subscript lg ''level'' = Inr l" "upper l = Inr nm" "logging_getattr H nm = Some lv"
    "subscript lg ''format'' = Inr f" "dict_get_default lg ''datefmt'' (PStr []) = Inr d"
  using assms unfolding reaches_log_file_def bindE_def attr_def
  by (auto split: sum.splits option.splits)

lemma setup_logging_stops_at_log_file:
  assumes "self_config (self s) = Some cfg" and "reaches_log_file H cfg"
    and "log_file H (self s) = Inl e"
  shows "setup_logging H s = (Inl e, s)"
proof -
  from assms(2) obtain lg l nm lv f d where
    "subscript cfg ''logging'' = Inr lg"
    "subscript lg ''level'' = Inr l" "upper l = Inr nm" "logging_getattr H nm = Some lv"
    "subscript lg ''format'' = Inr f" "dict_get_default lg ''datefmt'' (PStr []) = Inr d"
    by (rule reaches_log_file_cases)
  with assms(1,3) show ?thesis
    by (simp add: setup_logging_def bindS_simps attr_def bindE_def)
qed

lemma returns_self_bindS: "(\<And>v. returns_self (f v)) \<Longrightarrow> returns_self (bindS m f)"
  by (auto simp: returns_self_def bindS_def split: prod.splits sum.splits)

lemma returns_self_reads: "returns_self (reads (\<lambda>c. Inr c))"
  by (simp add: returns_self_def reads_def)


lemma bindS_isl: "isl (fst (m s)) \<Longrightarrow> isl (fst (bindS m f s))"
  by (cases "m s") (auto simp: bindS_def isl_def)

lemma docker_names_unnamed:
  assumes "self_name c = None"
  shows "docker_container_name H c = Inl (AttributeError ''name'')"
    and "docker_network_name H c = Inl (AttributeError ''name'')"
    and "docker_temporary_volume_name H c i = Inl (AttributeError ''name'')"
  using assms
  by (simp_all add: docker_container_name_def docker_network_name_def
        docker_temporary_volume_name_def bindE_def attr_def)

lemma external_tail_keeps:
  "keeps (\<lambda>s. (self_name (self s), self_scope (self s)))
     (bindS (config_file_setter K H p) (\<lambda>_.
      bindS (environment_setter K H env) (\<lambda>_. reads (\<lambda>c. Inr c))))"
  by (intro keeps_bindS keeps_reads keeps_config_file_setter keeps_environment_setter) simp_all

lemma external_tail_returns_self:
  "returns_self
     (bindS (config_file_setter K H p) (\<lambda>_.
      bindS (environment_setter K H env) (\<lambda>_. reads (\<lambda>c. Inr c))))"
  by (intro returns_self_bindS returns_self_reads)

text \<open>The assignment of the environment on an object without a scope.\<close>

lemma environment_setter_no_scope:
  assumes "LOGGING_ENABLED K" and "self_config_manager (self s) = Some cm"
    and "self_scope (self s) = None" and "logging_without_file (cm_get cm env)"
  shows "isl (fst (environment_setter K H env s))"
    and "cm_truthy cm \<Longrightarrow> env \<in> set (cm_available_environments cm) \<Longrightarrow>
         reaches_log_file H (cm_get cm env) \<Longrightarrow>
         fst (environment_setter K H env s) = Inl (AttributeError ''scope'')"
proof -
  let ?s1 = "s\<lparr>self := (self s)\<lparr>self_environment := Some env, self_config := Some (cm_get cm env)\<rparr>\<rparr>"
  have lf: "cm_truthy cm \<Longrightarrow> log_file H (self ?s1) = Inl (AttributeError ''scope'')"
    by (rule log_file_no_scope [where cm = cm and cfg = "cm_get cm env" and env = env])
      (simp_all add: assms)
  show "isl (fst (environment_setter K H env s))"
  proof (cases "cm_truthy cm \<and> env \<in> set (cm_available_environments cm)")
    case True
    then have "environment_setter K H env s = setup_logging H ?s1"
      using assms(1,2) by (simp add: environment_setter_found)
    with True lf show ?thesis
      by (simp add: setup_logging_log_file_raises)
  next
    case False
    with assms(2) show ?thesis
      by (cases "cm_truthy cm")
        (simp_all add: environment_setter_falsy environment_setter_not_found)
  qed
  assume t: "cm_truthy cm" and a: "env \<in> set (cm_available_environments cm)"
    and g: "reaches_log_file H (cm_get cm env)"
  have "environment_setter K H env s = setup_logging H ?s1"
    using assms(1,2) t a by (simp add: environment_setter_found)
  moreover have "setup_logging H ?s1 = (Inl (AttributeError ''scope''), ?s1)"
    by (rule setup_logging_stops_at_log_file [OF _ g lf [OF t]]) simp
  ultimately show "fst (environment_setter K H env s) = Inl (AttributeError ''scope'')"
    by simp
qed

text \<open>
  Claim C10. \<^verbatim>\<open>from_external_config_file\<close> never assigns \<^verbatim>\<open>name\<close> or \<^verbatim>\<open>scope\<close>: in
  the state it leaves, whether it returned or raised, both attributes are unassigned,
  and the object it returns is the one in that state. On that object the container
  name, the network name and the temporary volume name raise \<^verbatim>\<open>AttributeError\<close> for
  \<^verbatim>\<open>name\<close>. When logging is enabled and the settings of the environment have a
  \<^verbatim>\<open>logging\<close> section without a file name, the construction raises; when the file
  exists and loads, the environment is available and the settings let the setup reach
  the log file, the exception is the \<^verbatim>\<open>AttributeError\<close> for \<^verbatim>\<open>scope\<close> that the default
  log-file name raises.
\<close>

theorem from_external_config_file_unnamed:
  assumes run: "from_external_config_file K H p instance_type environment system_folders s = (r, s')"
  shows "self_name (self s') = None \<and> self_scope (self s') = None \<and>
         (isl r \<or> r = Inr (self s')) \<and>
         docker_container_name H (self s') = Inl (AttributeError ''name'') \<and>
         docker_network_name H (self s') = Inl (AttributeError ''name'') \<and>
         docker_temporary_volume_name H (self s') run_id = Inl (AttributeError ''name'') \<and>
         (LOGGING_ENABLED K \<longrightarrow> from_file K p = Inr cm \<longrightarrow>
          logging_without_file (cm_get cm environment) \<longrightarrow> isl r) \<and>
         (LOGGING_ENABLED K \<longrightarrow> Path H p \<in> existing s \<longrightarrow> from_file K p = Inr cm \<longrightarrow>
          cm_truthy cm \<longrightarrow> environment \<in> set (cm_available_environments cm) \<longrightarrow>
          logging_without_file (cm_get cm environment) \<longrightarrow>
          reaches_log_file H (cm_get cm environment) \<longrightarrow>
          r = Inl (AttributeError ''scope''))"
proof -
  let ?s0 = "external_folders H p instance_type system_folders s"
  let ?tail = "bindS (config_file_setter K H p) (\<lambda>_.
      bindS (environment_setter K H environment) (\<lambda>_. reads (\<lambda>c. Inr c)))"
  let ?s3 = "?s0\<lparr>self := (self ?s0)\<lparr>self_config_file := Some (Path H p),
                                     self_config_manager := Some cm\<rparr>\<rparr>"
  from run have tl: "?tail ?s0 = (r, s')"
    by (simp add: from_external_unfold)
  have "(self_name (self (snd (?tail ?s0))), self_scope (self (snd (?tail ?s0)))) =
        (self_name (self ?s0), self_scope (self ?s0))"
    using external_tail_keeps [of K H p environment] unfolding keeps_def by blast
  with tl have ns: "self_name (self s') = None" "self_scope (self s') = None"
    by (simp_all add: external_folders_def new_object_def)
  have rs: "isl r \<or> r = Inr (self s')"
    using external_tail_returns_self [of K H p environment] tl
    by (auto simp: returns_self_def dest!: spec [of _ ?s0])
  have scope3: "self_scope (self ?s3) = None" "self_config_manager (self ?s3) = Some cm"
    by (simp_all add: external_folders_def new_object_def)
  have fails: "isl r"
    if l: "LOGGING_ENABLED K" and ld: "from_file K p = Inr cm"
      and nf: "logging_without_file (cm_get cm environment)"
  proof (cases "Path H p \<in> existing ?s0")
    case False
    then have "config_file_setter K H p ?s0 =
        (Inl (AssertionError (''config '' @ p @ '' not found'')), ?s0)"
      by (rule config_file_setter_absent)
    then have "isl (fst (?tail ?s0))"
      by (simp add: bindS_def)
    with tl show ?thesis by simp
  next
    case True
    then have c: "config_file_setter K H p ?s0 = (Inr (), ?s3)"
      by (simp add: config_file_setter_present ld)
    have "isl (fst (environment_setter K H environment ?s3))"
      by (rule environment_setter_no_scope(1) [OF l scope3(2) scope3(1) nf])
    then have "isl (fst (bindS (environment_setter K H environment) (\<lambda>_. reads (\<lambda>c. Inr c)) ?s3))"
      by (rule bindS_isl)
    with c tl show ?thesis
      by (simp add: bindS_def)
  qed
  have precise: "r = Inl (AttributeError ''scope'')"
    if l: "LOGGING_ENABLED K" and ex: "Path H p \<in> existing s" and ld: "from_file K p = Inr cm"
      and t: "cm_truthy cm" and a: "environment \<in> set (cm_available_environments cm)"
      and nf: "logging_without_file (cm_get cm environment)"
      and g: "reaches_log_file H (cm_get cm environment)"
  proof -
    from ex have "Path H p \<in> existing ?s0"
      by (simp add: external_folders_def)
    then have c: "config_file_setter K H p ?s0 = (Inr (), ?s3)"
      by (simp add: config_file_setter_present ld)
    have e: "fst (environment_setter K H environment ?s3) = Inl (AttributeError ''scope'')"
      by (rule environment_setter_no_scope(2) [OF l scope3(2) scope3(1) nf t a g])
    obtain u where "environment_setter K H environment ?s3 = (Inl (AttributeError ''scope''), u)"
      using e by (cases "environment_setter K H environment ?s3") simp
    with c tl show ?thesis
      by (simp add: bindS_def)
  qed
  show ?thesis
    using ns rs docker_names_unnamed [OF ns(1)] fails precise by blast
qed


text \<open>
  The file \<open>alpha.yaml\<close> with the environment \<open>dev\<close>: with logging enabled the
  construction raises the \<^verbatim>\<open>AttributeError\<close> for \<^verbatim>\<open>scope\<close>; with logging disabled it
  returns an object without a name.
\<close>

theorem from_external_config_file_unnamed_witness:
  "LOGGING_ENABLED (ex_class True) \<and>
   Path ex_host ''/home/u/.config/vantage6/node/alpha.yaml'' \<in> existing ex_state \<and>
   from_file (ex_class True) ''/home/u/.config/vantage6/node/alpha.yaml'' = Inr ex_manager \<and>
   cm_truthy ex_manager \<and> ''dev'' \<in> set (cm_available_environments ex_manager) \<and>
   logging_without_file (cm_get ex_manager ''dev'') \<and>
   reaches_log_file ex_host (cm_get ex_manager ''dev'') \<and>
   fst (from_external_config_file (ex_class True) ex_host
          ''/home/u/.config/vantage6/node/alpha.yaml'' ''node'' ''dev'' False ex_state) =
     Inl (AttributeError ''scope'') \<and>
   self_name (self (snd (from_external_config_file (ex_class True) ex_host
          ''/home/u/.config/vantage6/node/alpha.yaml'' ''node'' ''dev'' False ex_state))) = None \<and>
   self_scope (self (snd (from_external_config_file (ex_class True) ex_host
          ''/home/u/.config/vantage6/node/alpha.yaml'' ''node'' ''dev'' False ex_state))) = None \<and>
   fst (from_external_config_file (ex_class False) ex_host
          ''/home/u/.config/vantage6/node/alpha.yaml'' ''node'' ''dev'' False ex_state) =
     Inr (self (snd (from_external_config_file (ex_class False) ex_host
          ''/home/u/.config/vantage6/node/alpha.yaml'' ''node'' ''dev'' False ex_state))) \<and>
   docker_container_name ex_host (self (snd (from_external_config_file (ex_class False) ex_host
          ''/home/u/.config/vantage6/node/alpha.yaml'' ''node'' ''dev'' False ex_state))) =
     Inl (AttributeError ''name'') \<and>
   docker_temporary_volume_name ex_host (self (snd (from_external_config_file (ex_class False) ex_host
          ''/home/u/.config/vantage6/node/alpha.yaml'' ''node'' ''dev'' False ex_state))) 42 =
     Inl (AttributeError ''name'')"
proof -
  let ?p = "''/home/u/.config/vantage6/node/alpha.yaml''"
  let ?on = "from_external_config_file (ex_class True) ex_host ?p ''node'' ''dev'' False ex_state"
  let ?off = "from_external_config_file (ex_class False) ex_host ?p ''node'' ''dev'' False ex_state"
  have l: "LOGGING_ENABLED (ex_class True)"
    by (simp add: ex_class_def)
  have ex: "Path ex_host ?p \<in> existing ex_state"
    by (simp add: ex_host_def ex_state_def ex_files_def)
  have ld: "from_file (ex_class True) ?p = Inr ex_manager"
    by (simp add: ex_class_def)
  have m: "cm_truthy ex_manager" "''dev'' \<in> set (cm_available_environments ex_manager)"
    by (simp_all add: ex_manager_def)
  have g: "cm_get ex_manager ''dev'' = ex_dev"
    by (simp add: ex_manager_def)
  have nf: "logging_without_file (cm_get ex_manager ''dev'')"
    unfolding g by code_simp
  have rl: "reaches_log_file ex_host (cm_get ex_manager ''dev'')"
    unfolding g by code_simp
  have off: "\<not> isl (fst ?off)"
    by code_simp
  have on: "?on = (fst ?on, snd ?on)" and off': "?off = (fst ?off, snd ?off)"
    by simp_all
  note t_on = from_external_config_file_unnamed [OF on, of 42 ex_manager]
  note t_off = from_external_config_file_unnamed [OF off', of 42 ex_manager]
  from t_on l ex ld m nf rl have "fst ?on = Inl (AttributeError ''scope'')"
    by blast
  moreover from t_on have "self_name (self (snd ?on)) = None" "self_scope (self (snd ?on)) = None"
    by blast+
  moreover from t_off off have "fst ?off = Inr (self (snd ?off))"
    by blast
  moreover from t_off have "docker_container_name ex_host (self (snd ?off)) = Inl (AttributeError ''name'')"
    "docker_temporary_volume_name ex_host (self (snd ?off)) 42 = Inl (AttributeError ''name'')"
    by blast+
  ultimately show ?thesis
    using l ex ld m nf rl by blast
qed

text \<open>
  Claim C9, evaluated. \<^verbatim>\<open>from_external_config_file\<close> called for \<open>alpha.yaml\<close> and the
  environment \<open>prod\<close>, with logging enabled, returns a context. On that context the
  container name, the network name and the temporary volume name of run 42 raise
  \<^verbatim>\<open>AttributeError\<close> for \<^verbatim>\<open>name\<close>: the alternate constructor stores neither the name
  nor the scope that \<^verbatim>\<open>__init__\<close> stores.
\<close>

theorem docker_names_raise_after_external_constructor:
  "LOGGING_ENABLED (ex_class True) \<and>
   \<not> isl (fst (from_external_config_file (ex_class True) ex_host
          ''/home/u/.config/vantage6/node/alpha.yaml'' ''node'' ''prod'' False ex_state)) \<and>
   fst (from_external_config_file (ex_class True) ex_host
          ''/home/u/.config/vantage6/node/alpha.yaml'' ''node'' ''prod'' False ex_state) =
     Inr (self (snd (from_external_config_file (ex_class True) ex_host
          ''/home/u/.config/vantage6/node/alpha.yaml'' ''node'' ''prod'' False ex_state))) \<and>
   docker_container_name ex_host (self (snd (from_external_config_file (ex_class True) ex_host
          ''/home/u/.config/vantage6/node/alpha.yaml'' ''node'' ''prod'' False ex_state))) =
     Inl (AttributeError ''name'') \<and>
   docker_network_name ex_host (self (snd (from_external_config_file (ex_class True) ex_host
          ''/home/u/.config/vantage6/node/alpha.yaml'' ''node'' ''prod'' False ex_state))) =
     Inl (AttributeError ''name'') \<and>
   docker_temporary_volume_name ex_host (self (snd (from_external_config_file (ex_class True) ex_host
          ''/home/u/.config/vantage6/node/alpha.yaml'' ''node'' ''prod'' False ex_state))) 42 =
     Inl (AttributeError ''name'')"
proof -
  let ?R = "from_external_config_file (ex_class True) ex_host
          ''/home/u/.config/vantage6/node/alpha.yaml'' ''node'' ''prod'' False ex_state"
  have l: "LOGGING_ENABLED (ex_class True)"
    by (simp add: ex_class_def)
  have r: "\<not> isl (fst ?R)"
    by code_simp
  have "isl (fst ?R) \<or> fst ?R = Inr (self (snd ?R))"
    using external_tail_returns_self [of "ex_class True" ex_host
        "''/home/u/.config/vantage6/node/alpha.yaml''" "''prod''"]
    unfolding returns_self_def from_external_unfold by blast
  with r have o: "fst ?R = Inr (self (snd ?R))"
    by simp
  have d: "docker_container_name ex_host (self (snd ?R)) = Inl (AttributeError ''name'')"
    "docker_network_name ex_host (self (snd ?R)) = Inl (AttributeError ''name'')"
    "docker_temporary_volume_name ex_host (self (snd ?R)) 42 = Inl (AttributeError ''name'')"
    by code_simp+
  from l r o d show ?thesis
    by blast
qed

end
